theory Spec2Isabelle
  imports Main
begin

section \<open>Python strings and integers\<close>

text \<open>
  \<open>int(s)\<close> on a string, base ten, as CPython reads it: white space is stripped at both
  ends, one sign may follow, then digits, with single underscores allowed between
  digits. \<open>None\<close> is ValueError. Strings are byte strings here, so the model is that of
  ASCII text; \<open>str(i)\<close> is the decimal numeral of \<open>i\<close>.

  The white space \<open>int\<close> skips on ASCII text is that of C's \<open>isspace\<close>: tab, line feed,
  vertical tab, form feed, carriage return (bytes 9 to 13) and the space (32). The
  separators 28 to 31, which \<open>str.isspace\<close> accepts, are not skipped: \<open>int\<close> raises
  ValueError on a text that holds one.
\<close>

definition is_space :: "char \<Rightarrow> bool" where
  "is_space c = (let n = (of_char c :: nat) in (9 \<le> n \<and> n \<le> 13) \<or> n = 32)"

definition py_strip :: "string \<Rightarrow> string" where
  "py_strip s = rev (dropWhile is_space (rev (dropWhile is_space s)))"

definition is_digit :: "char \<Rightarrow> bool" where
  "is_digit c = (48 \<le> (of_char c :: nat) \<and> (of_char c :: nat) \<le> 57)"

definition digit_val :: "char \<Rightarrow> nat" where
  "digit_val c = of_char c - 48"

fun parse_digits :: "nat \<Rightarrow> string \<Rightarrow> nat option" where
  "parse_digits acc [] = Some acc"
| "parse_digits acc [c] = (if is_digit c then Some (10 * acc + digit_val c) else None)"
| "parse_digits acc (c # d # ds) =
     (if is_digit c then parse_digits (10 * acc + digit_val c) (d # ds)
      else if c = CHR ''_'' \<and> is_digit d then parse_digits (10 * acc + digit_val d) ds
      else None)"

definition parse_unsigned :: "string \<Rightarrow> nat option" where
  "parse_unsigned u = (case u of [] \<Rightarrow> None
                       | d # ds \<Rightarrow> if is_digit d then parse_digits 0 u else None)"

definition py_int :: "string \<Rightarrow> int option" where
  "py_int s =
     (case py_strip s of
        [] \<Rightarrow> None
      | c # r \<Rightarrow>
          if c = CHR ''-'' then map_option (\<lambda>n. - int n) (parse_unsigned r)
          else if c = CHR ''+'' then map_option int (parse_unsigned r)
          else map_option int (parse_unsigned (c # r)))"

fun str_nat :: "nat \<Rightarrow> string" where
  "str_nat n = (if n < 10 then [char_of (48 + n)]
                else str_nat (n div 10) @ [char_of (48 + n mod 10)])"

declare str_nat.simps [simp del]

definition py_str :: "int \<Rightarrow> string" where
  "py_str i = (if i < 0 then CHR ''-'' # str_nat (nat (- i)) else str_nat (nat i))"

definition startswith :: "string \<Rightarrow> string \<Rightarrow> bool" where
  "startswith s p = (take (length p) s = p)"

text \<open>Python's truth value of a form field: absent and empty are both false.\<close>

definition preenchido :: "string option \<Rightarrow> bool" where
  "preenchido x = (case x of None \<Rightarrow> False | Some s \<Rightarrow> s \<noteq> [])"

section \<open>Store application: data model (sistema\_loja.py)\<close>

text \<open>
  A date is a triple (year, month, day). A table whose rows are only ever looked up by
  primary key (\<open>jogos\<close>, \<open>clientes\<close>) is a map from the key to the row; a table that
  is scanned (\<open>locacoes\<close>, \<open>pedidos\<close>, \<open>itens_pedido\<close>) is the list of its rows in
  insertion order, each row carrying its key.
\<close>

type_synonym data = "nat \<times> nat \<times> nat"

record jogo =
  titulo :: string
  genero :: string
  ano_lancamento :: int
  plataformas :: string
  desenvolvedora :: string
  copias_total :: int

record cliente =
  nome :: string
  telefone :: string
  cpf :: string
  endereco :: string

record locacao =
  locacao_id :: int
  loc_cliente_id :: int
  loc_jogo_id :: int
  data_retirada :: data
  data_devolucao_prevista :: "data option"
  data_devolucao_real :: "data option"
  status :: string

record pedido =
  pedido_id :: int
  ped_cliente_id :: int
  ped_data :: data
  ped_status :: string

record item_pedido =
  item_id :: int
  item_pedido_id :: int
  item_jogo_id :: int
  quantidade :: int

record banco =
  jogos :: "int \<rightharpoonup> jogo"
  clientes :: "int \<rightharpoonup> cliente"
  locacoes :: "locacao list"
  pedidos :: "pedido list"
  itens_pedido :: "item_pedido list"

text \<open>
  The key the database gives a new row: greater than every key of the table
  (autoincrement). Only that it is fresh and greater is ever used.
\<close>

definition proximo_id :: "int list \<Rightarrow> int" where
  "proximo_id ids = foldr max ids 0 + 1"

subsection \<open>What a handler answers\<close>

text \<open>
  \<open>flash(text, category)\<close> is a pair of the category and the message; the message is a
  constructor carrying the values the source interpolates into the text.
\<close>

datatype categoria = Erro | Sucesso | Info

datatype mensagem =
    CarrinhoVazio
  | SelecioneCliente
  | ClienteInvalido
  | ClienteNaoEncontrado
  | EstoqueInsuficiente string int
  | CompraFinalizada
  | ErroFinalizarCompra string
  | JogoAdicionado
  | ItemRemovido
  | ItemNaoEncontrado
  | PreenchaCamposLocacao
  | ClienteOuJogoInvalido
  | ClienteOuJogoNaoEncontrado
  | DataRetiradaInvalida
  | DataPrevistaInvalida
  | SemCopiasDisponiveis string
  | LocacaoRegistrada
  | ErroRegistrarLocacao string
  | LocacaoNaoEncontrada
  | DataRealInvalida
  | LocacaoAtualizada
  | ErroAtualizarLocacao string
  | LocacaoJaDevolvida
  | DevolucaoRegistrada
  | ErroRegistrarDevolucao string

datatype destino =
    Loja | VerCarrinho | FinalizarCompra | CadastrarLocacao | ListarLocacoes
  | EditarLocacao int

datatype resposta = Redirect destino | Render string

datatype metodo = GET | POST

record resultado =
  r_banco :: banco
  r_flash :: "(categoria \<times> mensagem) list"
  r_resp :: resposta

subsection \<open>Jogo.copias\_disponiveis\<close>

text \<open>
  \<open>self.locacoes\<close> is the relationship over the foreign key \<open>jogo_id\<close>: the rental rows
  of the game. The property is computed from the rows at hand; nothing is stored.
\<close>

definition locacoes_do_jogo :: "banco \<Rightarrow> int \<Rightarrow> locacao list" where
  "locacoes_do_jogo db jid = filter (\<lambda>loc. loc_jogo_id loc = jid) (locacoes db)"

definition copias_disponiveis :: "banco \<Rightarrow> int \<Rightarrow> jogo \<Rightarrow> int" where
  "copias_disponiveis db jid j =
     (let alugados = sum_list (map (\<lambda>loc. 1)
                       (filter (\<lambda>loc. status loc = ''ALUGADO'') (locacoes_do_jogo db jid)))
      in copias_total j - alugados)"

subsection \<open>devolver\_locacao\<close>

text \<open>
  \<open>.filter(Locacao.id == locacao_id).first()\<close> is \<open>find\<close>. A commit that raises is the
  environment's choice: \<open>falha = Some e\<close> is the exception with text \<open>e\<close>, after which the
  rollback leaves the database as it was.
\<close>

definition buscar_locacao :: "banco \<Rightarrow> int \<Rightarrow> locacao option" where
  "buscar_locacao db lid = find (\<lambda>loc. locacao_id loc = lid) (locacoes db)"

definition atualizar_locacao :: "banco \<Rightarrow> int \<Rightarrow> (locacao \<Rightarrow> locacao) \<Rightarrow> banco" where
  "atualizar_locacao db lid f =
     db\<lparr>locacoes := map (\<lambda>loc. if locacao_id loc = lid then f loc else loc) (locacoes db)\<rparr>"

definition devolver_locacao :: "banco \<Rightarrow> int \<Rightarrow> data \<Rightarrow> string option \<Rightarrow> resultado" where
  "devolver_locacao db lid hoje falha =
     (case buscar_locacao db lid of
        None \<Rightarrow> \<lparr>r_banco = db, r_flash = [(Erro, LocacaoNaoEncontrada)],
                 r_resp = Redirect ListarLocacoes\<rparr>
      | Some loc \<Rightarrow>
          if status loc = ''DEVOLVIDO''
          then \<lparr>r_banco = db, r_flash = [(Info, LocacaoJaDevolvida)],
                r_resp = Redirect ListarLocacoes\<rparr>
          else (case falha of
                  None \<Rightarrow>
                    \<lparr>r_banco = atualizar_locacao db lid
                                 (\<lambda>l. l\<lparr>status := ''DEVOLVIDO'', data_devolucao_real := Some hoje\<rparr>),
                     r_flash = [(Sucesso, DevolucaoRegistrada)],
                     r_resp = Redirect ListarLocacoes\<rparr>
                | Some e \<Rightarrow>
                    \<lparr>r_banco = db, r_flash = [(Erro, ErroRegistrarDevolucao e)],
                     r_resp = Redirect ListarLocacoes\<rparr>))"

section \<open>Shopping cart\<close>

text \<open>
  The cart that \<open>get_cart()\<close> returns is a dict from game id to quantity: an association
  list in the dict's iteration order, its keys distinct. \<open>cart.get(k, d)\<close>,
  \<open>cart[k] = v\<close> (in place when the key is there, at the end when it is new) and
  \<open>del cart[k]\<close> are the three functions below.
\<close>

type_synonym carrinho = "(int \<times> int) list"

definition cart_get :: "carrinho \<Rightarrow> int \<Rightarrow> int \<Rightarrow> int" where
  "cart_get cart k d = (case map_of cart k of None \<Rightarrow> d | Some v \<Rightarrow> v)"

fun cart_set :: "carrinho \<Rightarrow> int \<Rightarrow> int \<Rightarrow> carrinho" where
  "cart_set [] k v = [(k, v)]"
| "cart_set ((k', v') # rest) k v =
     (if k' = k then (k, v) # rest else (k', v') # cart_set rest k v)"

definition cart_del :: "carrinho \<Rightarrow> int \<Rightarrow> carrinho" where
  "cart_del cart k = filter (\<lambda>(k', v). k' \<noteq> k) cart"

record resultado_cart =
  c_cart :: carrinho
  c_flash :: "(categoria \<times> mensagem) list"
  c_resp :: resposta

subsection \<open>adicionar\_ao\_carrinho\<close>

text \<open>
  \<open>int(request.form.get("quantidade", 1))\<close>: an absent field is the integer 1; a field
  that is not a number raises ValueError, which nothing catches: the result is \<open>None\<close>
  and the session keeps the cart it had.
\<close>

definition ler_quantidade :: "string option \<Rightarrow> int option" where
  "ler_quantidade campo = (case campo of None \<Rightarrow> Some 1 | Some s \<Rightarrow> py_int s)"

definition adicionar_ao_carrinho ::
    "carrinho \<Rightarrow> int \<Rightarrow> string option \<Rightarrow> resultado_cart option" where
  "adicionar_ao_carrinho cart jid campo =
     (case ler_quantidade campo of
        None \<Rightarrow> None
      | Some qtd0 \<Rightarrow>
          let qtd = (if qtd0 \<le> 0 then 1 else qtd0)
          in Some \<lparr>c_cart = cart_set cart jid (cart_get cart jid 0 + qtd),
                   c_flash = [(Sucesso, JogoAdicionado)],
                   c_resp = Redirect Loja\<rparr>)"

subsection \<open>remover\_do\_carrinho\<close>

definition remover_do_carrinho :: "carrinho \<Rightarrow> int \<Rightarrow> resultado_cart" where
  "remover_do_carrinho cart jid =
     (if jid \<in> set (map fst cart)
      then \<lparr>c_cart = cart_del cart jid, c_flash = [(Sucesso, ItemRemovido)],
            c_resp = Redirect VerCarrinho\<rparr>
      else \<lparr>c_cart = cart, c_flash = [(Erro, ItemNaoEncontrado)],
            c_resp = Redirect VerCarrinho\<rparr>)"

section \<open>Checkout: finalizar\_compra\<close>

text \<open>
  \<open>jogos_map\<close> holds the games whose id is a key of the cart, loaded once. The two loops
  run over \<open>cart.items()\<close> in order and skip a line whose game is not there.
\<close>

definition jogos_map :: "banco \<Rightarrow> carrinho \<Rightarrow> (int \<rightharpoonup> jogo)" where
  "jogos_map db cart = jogos db |` set (map fst cart)"

fun validar_estoque :: "banco \<Rightarrow> (int \<rightharpoonup> jogo) \<Rightarrow> carrinho \<Rightarrow> (string \<times> int) option" where
  "validar_estoque db jm [] = None"
| "validar_estoque db jm ((jid, q) # rest) =
     (case jm jid of
        None \<Rightarrow> validar_estoque db jm rest
      | Some j \<Rightarrow>
          if copias_disponiveis db jid j < q
          then Some (titulo j, copias_disponiveis db jid j)
          else validar_estoque db jm rest)"

definition abater_estoque :: "jogo \<Rightarrow> int \<Rightarrow> jogo" where
  "abater_estoque j q =
     (let j1 = j\<lparr>copias_total := copias_total j - q\<rparr>
      in if copias_total j1 < 0 then j1\<lparr>copias_total := 0\<rparr> else j1)"

fun criar_itens ::
    "int \<Rightarrow> carrinho \<Rightarrow> (int \<rightharpoonup> jogo) \<times> item_pedido list \<Rightarrow> (int \<rightharpoonup> jogo) \<times> item_pedido list"
where
  "criar_itens pid [] st = st"
| "criar_itens pid ((jid, q) # rest) (jm, itens) =
     (case jm jid of
        None \<Rightarrow> criar_itens pid rest (jm, itens)
      | Some j \<Rightarrow>
          criar_itens pid rest
            (jm(jid \<mapsto> abater_estoque j q),
             itens @ [\<lparr>item_id = proximo_id (map item_id itens), item_pedido_id = pid,
                       item_jogo_id = jid, quantidade = q\<rparr>]))"

text \<open>
  The same loop with the decrement alone, without the clamp at zero: the reference the
  loop of the source is compared with.
\<close>

definition abater_sem_clamp :: "jogo \<Rightarrow> int \<Rightarrow> jogo" where
  "abater_sem_clamp j q = j\<lparr>copias_total := copias_total j - q\<rparr>"

fun criar_itens_sem_clamp ::
    "int \<Rightarrow> carrinho \<Rightarrow> (int \<rightharpoonup> jogo) \<times> item_pedido list \<Rightarrow> (int \<rightharpoonup> jogo) \<times> item_pedido list"
where
  "criar_itens_sem_clamp pid [] st = st"
| "criar_itens_sem_clamp pid ((jid, q) # rest) (jm, itens) =
     (case jm jid of
        None \<Rightarrow> criar_itens_sem_clamp pid rest (jm, itens)
      | Some j \<Rightarrow>
          criar_itens_sem_clamp pid rest
            (jm(jid \<mapsto> abater_sem_clamp j q),
             itens @ [\<lparr>item_id = proximo_id (map item_id itens), item_pedido_id = pid,
                       item_jogo_id = jid, quantidade = q\<rparr>]))"

record resultado_compra =
  fc_banco :: banco
  fc_cart :: carrinho
  fc_flash :: "(categoria \<times> mensagem) list"
  fc_resp :: resposta

text \<open>
  The body of the \<open>try\<close>: the order row, the lines and the decrements, then the commit,
  which writes the games of \<open>jogos_map\<close> back over the table.
\<close>

definition gravar_pedido :: "banco \<Rightarrow> carrinho \<Rightarrow> int \<Rightarrow> data \<Rightarrow> banco" where
  "gravar_pedido db cart cid hoje =
     (let pid = proximo_id (map pedido_id (pedidos db));
          ped = \<lparr>pedido_id = pid, ped_cliente_id = cid, ped_data = hoje,
                 ped_status = ''CONCLUIDO''\<rparr>;
          (jm, itens) = criar_itens pid cart (jogos_map db cart, itens_pedido db)
      in db\<lparr>jogos := jogos db ++ jm, pedidos := pedidos db @ [ped], itens_pedido := itens\<rparr>)"

definition finalizar_compra ::
    "banco \<Rightarrow> carrinho \<Rightarrow> metodo \<Rightarrow> string option \<Rightarrow> data \<Rightarrow> string option \<Rightarrow> resultado_compra"
where
  "finalizar_compra db cart met campo_cliente hoje falha =
     (if cart = []
      then \<lparr>fc_banco = db, fc_cart = cart, fc_flash = [(Erro, CarrinhoVazio)],
            fc_resp = Redirect Loja\<rparr>
      else if met = POST then
        (case (if preenchido campo_cliente then campo_cliente else None) of
           None \<Rightarrow> \<lparr>fc_banco = db, fc_cart = cart, fc_flash = [(Erro, SelecioneCliente)],
                    fc_resp = Redirect FinalizarCompra\<rparr>
         | Some texto \<Rightarrow>
          (case py_int texto of
             None \<Rightarrow> \<lparr>fc_banco = db, fc_cart = cart, fc_flash = [(Erro, ClienteInvalido)],
                      fc_resp = Redirect FinalizarCompra\<rparr>
           | Some cid \<Rightarrow>
              (case clientes db cid of
                 None \<Rightarrow> \<lparr>fc_banco = db, fc_cart = cart,
                          fc_flash = [(Erro, ClienteNaoEncontrado)],
                          fc_resp = Redirect FinalizarCompra\<rparr>
               | Some cli \<Rightarrow>
                  (case validar_estoque db (jogos_map db cart) cart of
                     Some (t, disp) \<Rightarrow>
                       \<lparr>fc_banco = db, fc_cart = cart,
                        fc_flash = [(Erro, EstoqueInsuficiente t disp)],
                        fc_resp = Redirect VerCarrinho\<rparr>
                   | None \<Rightarrow>
                      (case falha of
                         Some e \<Rightarrow>
                           \<lparr>fc_banco = db, fc_cart = cart,
                            fc_flash = [(Erro, ErroFinalizarCompra e)],
                            fc_resp = Redirect VerCarrinho\<rparr>
                       | None \<Rightarrow>
                           \<lparr>fc_banco = gravar_pedido db cart cid hoje, fc_cart = [],
                            fc_flash = [(Sucesso, CompraFinalizada)],
                            fc_resp = Redirect Loja\<rparr>)))))
      else \<lparr>fc_banco = db, fc_cart = cart, fc_flash = [],
            fc_resp = Render ''finalizar_compra.html''\<rparr>)"

section \<open>Rentals\<close>

subsection \<open>cadastrar\_locacao\<close>

text \<open>
  The form fields as the request carries them. \<open>strptime\<close> stands for
  \<open>datetime.strptime(s, "%Y-%m-%d").date()\<close>, \<open>None\<close> being its ValueError; \<open>hoje\<close> is
  \<open>date.today()\<close>.
\<close>

record form_locacao =
  fl_cliente_id :: "string option"
  fl_jogo_id :: "string option"
  fl_data_retirada :: "string option"
  fl_data_devolucao_prevista :: "string option"
  fl_status :: "string option"

definition campo_status :: "string option \<Rightarrow> string" where
  "campo_status campo = (case campo of None \<Rightarrow> ''ALUGADO'' | Some s \<Rightarrow> s)"

definition rejeitar :: "banco \<Rightarrow> mensagem \<Rightarrow> destino \<Rightarrow> resultado" where
  "rejeitar db m d = \<lparr>r_banco = db, r_flash = [(Erro, m)], r_resp = Redirect d\<rparr>"

definition inserir_locacao ::
    "banco \<Rightarrow> int \<Rightarrow> int \<Rightarrow> data \<Rightarrow> data option \<Rightarrow> data option \<Rightarrow> string \<Rightarrow> banco" where
  "inserir_locacao db cid jid retirada prevista real st =
     db\<lparr>locacoes := locacoes db @
        [\<lparr>locacao_id = proximo_id (map locacao_id (locacoes db)), loc_cliente_id = cid,
          loc_jogo_id = jid, data_retirada = retirada, data_devolucao_prevista = prevista,
          data_devolucao_real = real, status = st\<rparr>]\<rparr>"

text \<open>
  The expected return date is optional: an absent or empty field is no date, a field that
  does not parse is the error (the outer \<open>None\<close>).
\<close>

definition ler_data_prevista :: "(string \<Rightarrow> data option) \<Rightarrow> string option \<Rightarrow> data option option" where
  "ler_data_prevista strptime campo =
     (if preenchido campo then map_option Some (Option.bind campo strptime) else Some None)"

definition cadastrar_locacao ::
    "(string \<Rightarrow> data option) \<Rightarrow> banco \<Rightarrow> metodo \<Rightarrow> form_locacao \<Rightarrow> data \<Rightarrow> string option
       \<Rightarrow> resultado"
where
  "cadastrar_locacao strptime db met form hoje falha =
     (if met = POST then
        (let st = campo_status (fl_status form);
             ja_devolveu = (st = ''DEVOLVIDO'')
         in
         if \<not> (preenchido (fl_cliente_id form) \<and> preenchido (fl_jogo_id form)
                \<and> preenchido (fl_data_retirada form))
         then rejeitar db PreenchaCamposLocacao CadastrarLocacao
         else
          (case (Option.bind (fl_cliente_id form) py_int, Option.bind (fl_jogo_id form) py_int) of
             (Some cid, Some jid) \<Rightarrow>
               (case (clientes db cid, jogos db jid) of
                  (Some cli, Some j) \<Rightarrow>
                    (case Option.bind (fl_data_retirada form) strptime of
                       None \<Rightarrow> rejeitar db DataRetiradaInvalida CadastrarLocacao
                     | Some retirada \<Rightarrow>
                        (case ler_data_prevista strptime (fl_data_devolucao_prevista form) of
                           None \<Rightarrow> rejeitar db DataPrevistaInvalida CadastrarLocacao
                         | Some prevista \<Rightarrow>
                            if \<not> ja_devolveu \<and> copias_disponiveis db jid j \<le> 0
                            then rejeitar db (SemCopiasDisponiveis (titulo j)) CadastrarLocacao
                            else
                             (let real = (if ja_devolveu then Some hoje else None)
                              in case falha of
                                   None \<Rightarrow>
                                     \<lparr>r_banco = inserir_locacao db cid jid retirada prevista real st,
                                      r_flash = [(Sucesso, LocacaoRegistrada)],
                                      r_resp = Redirect ListarLocacoes\<rparr>
                                 | Some e \<Rightarrow>
                                     rejeitar db (ErroRegistrarLocacao e) CadastrarLocacao)))
                | _ \<Rightarrow> rejeitar db ClienteOuJogoNaoEncontrado CadastrarLocacao)
           | _ \<Rightarrow> rejeitar db ClienteOuJogoInvalido CadastrarLocacao))
      else \<lparr>r_banco = db, r_flash = [], r_resp = Render ''locacoes_cadastrar.html''\<rparr>)"

subsection \<open>editar\_locacao\<close>

text \<open>
  The handler sets the status, then the actual return date, then commits. A date that
  does not parse leaves through the redirect before the commit, so nothing it set so far
  reaches the database.
\<close>

definition editar_locacao ::
    "(string \<Rightarrow> data option) \<Rightarrow> banco \<Rightarrow> int \<Rightarrow> metodo \<Rightarrow> string option \<Rightarrow> string option
       \<Rightarrow> data \<Rightarrow> string option \<Rightarrow> resultado"
where
  "editar_locacao strptime db lid met campo_st campo_real hoje falha =
     (case buscar_locacao db lid of
        None \<Rightarrow> rejeitar db LocacaoNaoEncontrada ListarLocacoes
      | Some loc \<Rightarrow>
          if met = POST then
            (let st = campo_status campo_st;
                 nova_data =
                   (if st = ''DEVOLVIDO''
                    then (if preenchido campo_real
                          then map_option Some (Option.bind campo_real strptime)
                          else Some (Some hoje))
                    else Some None)
             in case nova_data of
                  None \<Rightarrow> rejeitar db DataRealInvalida (EditarLocacao lid)
                | Some real \<Rightarrow>
                    (case falha of
                       None \<Rightarrow>
                         \<lparr>r_banco = atualizar_locacao db lid
                                      (\<lambda>l. l\<lparr>status := st, data_devolucao_real := real\<rparr>),
                          r_flash = [(Sucesso, LocacaoAtualizada)],
                          r_resp = Redirect ListarLocacoes\<rparr>
                     | Some e \<Rightarrow>
                         \<lparr>r_banco = db, r_flash = [(Erro, ErroAtualizarLocacao e)],
                          r_resp = Redirect ListarLocacoes\<rparr>))
          else \<lparr>r_banco = db, r_flash = [], r_resp = Render ''locacoes_editar.html''\<rparr>)"

section \<open>Student registration (sistema\_faculdade.py)\<close>

record aluno =
  aluno_id :: int
  aluno_nome :: string
  email :: string
  curso :: string
  matricula :: string

definition CURSOS_VALIDOS :: "string set" where
  "CURSOS_VALIDOS = {''GEC'', ''GEA'', ''GES'', ''GEB'', ''GET''}"

subsection \<open>gerar\_matricula\<close>

text \<open>
  \<open>.order_by(Aluno.id.desc()).first()\<close>: the row with the greatest primary key, none for
  an empty result.
\<close>

fun ultimo_por_id :: "aluno list \<Rightarrow> aluno option" where
  "ultimo_por_id [] = None"
| "ultimo_por_id (a # resto) =
     (case ultimo_por_id resto of
        None \<Rightarrow> Some a
      | Some b \<Rightarrow> if aluno_id a < aluno_id b then Some b else Some a)"

definition alunos_do_curso :: "aluno list \<Rightarrow> string \<Rightarrow> aluno list" where
  "alunos_do_curso db c = filter (\<lambda>a. curso a = c) db"

definition gerar_matricula :: "aluno list \<Rightarrow> string \<Rightarrow> string" where
  "gerar_matricula db c =
     (let ultimo = ultimo_por_id (alunos_do_curso db c);
          proximo =
            (case ultimo of
               None \<Rightarrow> 1
             | Some u \<Rightarrow>
                 if startswith (matricula u) c
                 then (let numero_atual =
                             (case py_int (drop (length c) (matricula u)) of
                                Some n \<Rightarrow> n
                              | None \<Rightarrow> 0)
                       in numero_atual + 1)
                 else 1)
      in c @ py_str proximo)"

subsection \<open>novo\_aluno\<close>

text \<open>
  The POST branch, on the fields as the handler has them after \<open>strip()\<close> and, for the
  course, \<open>upper()\<close>. The commit raises when the e-mail or the matriculation is already
  in the table (both columns are unique) or when the environment says so (\<open>fa_falha\<close>);
  the rollback then leaves the table as it was.
\<close>

datatype mensagem_fac =
    PreenchaCampos
  | CursoInvalido
  | AlunoCadastrado string string
  | ErroCadastrarAluno string

datatype destino_fac = NovoAluno | ListarAlunos

record form_aluno =
  fa_nome :: string
  fa_email :: string
  fa_curso :: string
  fa_falha :: "string option"

record resultado_fac =
  rf_alunos :: "aluno list"
  rf_flash :: "(categoria \<times> mensagem_fac) list"
  rf_resp :: destino_fac

definition commit_aluno :: "aluno list \<Rightarrow> form_aluno \<Rightarrow> string \<Rightarrow> string + aluno list" where
  "commit_aluno db form m =
     (case fa_falha form of
        Some e \<Rightarrow> Inl e
      | None \<Rightarrow>
          if list_ex (\<lambda>a. email a = fa_email form \<or> matricula a = m) db
          then Inl ''IntegrityError''
          else Inr (db @ [\<lparr>aluno_id = proximo_id (map aluno_id db), aluno_nome = fa_nome form,
                            email = fa_email form, curso = fa_curso form, matricula = m\<rparr>]))"

definition novo_aluno :: "aluno list \<Rightarrow> form_aluno \<Rightarrow> resultado_fac" where
  "novo_aluno db form =
     (if fa_nome form = [] \<or> fa_email form = [] \<or> fa_curso form = []
      then \<lparr>rf_alunos = db, rf_flash = [(Erro, PreenchaCampos)], rf_resp = NovoAluno\<rparr>
      else if fa_curso form \<notin> CURSOS_VALIDOS
      then \<lparr>rf_alunos = db, rf_flash = [(Erro, CursoInvalido)], rf_resp = NovoAluno\<rparr>
      else
        (let m = gerar_matricula db (fa_curso form)
         in case commit_aluno db form m of
              Inr db' \<Rightarrow> \<lparr>rf_alunos = db', rf_flash = [(Sucesso, AlunoCadastrado (fa_nome form) m)],
                          rf_resp = ListarAlunos\<rparr>
            | Inl e \<Rightarrow> \<lparr>rf_alunos = db, rf_flash = [(Erro, ErroCadastrarAluno e)],
                        rf_resp = ListarAlunos\<rparr>))"

text \<open>Registrations one after the other, each on the table the one before left.\<close>

fun registrar_todos :: "aluno list \<Rightarrow> form_aluno list \<Rightarrow> aluno list" where
  "registrar_todos db [] = db"
| "registrar_todos db (form # resto) = registrar_todos (rf_alunos (novo_aluno db form)) resto"

section \<open>Predicates of the statements\<close>

definition quantidades_positivas :: "carrinho \<Rightarrow> bool" where
  "quantidades_positivas cart = list_all (\<lambda>(k, v). 0 < v) cart"

text \<open>What an order line says: its order, its game and its quantity.\<close>

definition linha_do_item :: "item_pedido \<Rightarrow> int \<times> int \<times> int" where
  "linha_do_item i = (item_pedido_id i, item_jogo_id i, quantidade i)"

text \<open>
  The students of a course carry the numbers 1, 2, ... in the order of the table, and the
  one the allocator reads (greatest key) is the last of them.
\<close>

definition sequencial :: "aluno list \<Rightarrow> string \<Rightarrow> bool" where
  "sequencial db c =
     (let cs = alunos_do_curso db c
      in map matricula cs = map (\<lambda>k. c @ py_str (int k)) [1..<Suc (length cs)]
         \<and> (cs \<noteq> [] \<longrightarrow> ultimo_por_id cs = Some (last cs)))"

section \<open>Example data\<close>

definition jogo_ex :: "int \<Rightarrow> jogo" where
  "jogo_ex n = \<lparr>titulo = ''Tetris'', genero = ''Puzzle'', ano_lancamento = 1984,
                plataformas = ''PC'', desenvolvedora = ''Elorg'', copias_total = n\<rparr>"

definition cliente_ex :: cliente where
  "cliente_ex = \<lparr>nome = ''Ana'', telefone = ''1'', cpf = ''2'', endereco = ''Rua''\<rparr>"

definition loc_ex :: "int \<Rightarrow> int \<Rightarrow> string \<Rightarrow> data option \<Rightarrow> locacao" where
  "loc_ex lid jid st real =
     \<lparr>locacao_id = lid, loc_cliente_id = 1, loc_jogo_id = jid, data_retirada = (2024, 1, 2),
      data_devolucao_prevista = None, data_devolucao_real = real, status = st\<rparr>"

definition banco_ex :: "int \<Rightarrow> locacao list \<Rightarrow> banco" where
  "banco_ex n locs = \<lparr>jogos = [5 \<mapsto> jogo_ex n], clientes = [1 \<mapsto> cliente_ex],
                      locacoes = locs, pedidos = [], itens_pedido = []\<rparr>"

definition strptime_ex :: "string \<Rightarrow> data option" where
  "strptime_ex s = (if s = ''2024-01-02'' then Some (2024, 1, 2)
                    else if s = ''2024-01-09'' then Some (2024, 1, 9) else None)"

definition form_ex :: "string \<Rightarrow> form_locacao" where
  "form_ex st = \<lparr>fl_cliente_id = Some ''1'', fl_jogo_id = Some ''5'',
                 fl_data_retirada = Some ''2024-01-02'', fl_data_devolucao_prevista = None,
                 fl_status = Some st\<rparr>"

definition aluno_ex :: "int \<Rightarrow> string \<Rightarrow> string \<Rightarrow> aluno" where
  "aluno_ex i c m = \<lparr>aluno_id = i, aluno_nome = ''Ana'', email = ''ana@x'', curso = c,
                     matricula = m\<rparr>"

definition form_aluno_ex :: "string \<Rightarrow> string \<Rightarrow> form_aluno" where
  "form_aluno_ex e c = \<lparr>fa_nome = ''Bia'', fa_email = e, fa_curso = c, fa_falha = None\<rparr>"

section \<open>Evaluating the string functions\<close>

lemmas py_int_eval = py_int_def py_strip_def is_space_def parse_unsigned_def is_digit_def
  digit_val_def Let_def

subsection \<open>\<open>int(str(i))\<close> is \<open>i\<close>\<close>

lemma digit_char: "d < 10 \<Longrightarrow> is_digit (char_of (48 + d)) \<and> digit_val (char_of (48 + d)) = d"
  by (simp add: is_digit_def digit_val_def)

lemma digit_not_space: "is_digit c \<Longrightarrow> \<not> is_space c"
  by (auto simp: is_digit_def is_space_def Let_def)

lemma digit_not_sign: "is_digit c \<Longrightarrow> c \<noteq> CHR ''-'' \<and> c \<noteq> CHR ''+'' \<and> c \<noteq> CHR ''_''"
  by (auto simp: is_digit_def)

lemma parse_digits_all:
  "list_all is_digit ds \<Longrightarrow>
   parse_digits acc ds = Some (foldl (\<lambda>a c. 10 * a + digit_val c) acc ds)"
  by (induction acc ds rule: parse_digits.induct) auto

lemma str_nat_digits: "list_all is_digit (str_nat n)"
proof (induction n rule: str_nat.induct)
  case (1 n)
  show ?case
  proof (cases "n < 10")
    case True
    then show ?thesis using digit_char [of n] by (simp add: str_nat.simps [of n])
  next
    case False
    have "n mod 10 < 10" by simp
    with False 1 show ?thesis
      using digit_char [of "n mod 10"] by (simp add: str_nat.simps [of n])
  qed
qed

lemma str_nat_val: "foldl (\<lambda>a c. 10 * a + digit_val c) 0 (str_nat n) = n"
proof (induction n rule: str_nat.induct)
  case (1 n)
  show ?case
  proof (cases "n < 10")
    case True
    then show ?thesis using digit_char [of n] by (simp add: str_nat.simps [of n])
  next
    case False
    have "n mod 10 < 10" by simp
    with False 1 show ?thesis
      using digit_char [of "n mod 10"] by (simp add: str_nat.simps [of n])
  qed
qed

lemma str_nat_nonempty: "str_nat n \<noteq> []"
  by (subst str_nat.simps) simp

lemma strip_no_space: "list_all (\<lambda>c. \<not> is_space c) s \<Longrightarrow> py_strip s = s"
proof (cases s rule: rev_cases)
  case Nil
  then show ?thesis by (simp add: py_strip_def)
next
  case (snoc ys y)
  assume "list_all (\<lambda>c. \<not> is_space c) s"
  with snoc show ?thesis
    by (cases ys) (simp_all add: py_strip_def)
qed

lemma parse_unsigned_str_nat: "parse_unsigned (str_nat n) = Some n"
proof -
  obtain d ds where e: "str_nat n = d # ds"
    using str_nat_nonempty [of n] by (cases "str_nat n") auto
  have "is_digit d" using str_nat_digits [of n] e by simp
  then show ?thesis
    using e parse_digits_all [OF str_nat_digits, of 0 n] str_nat_val [of n]
    by (simp add: parse_unsigned_def)
qed

lemma py_int_str_nat: "py_int (str_nat n) = Some (int n)"
proof -
  obtain d ds where e: "str_nat n = d # ds"
    using str_nat_nonempty [of n] by (cases "str_nat n") auto
  have dg: "is_digit d" using str_nat_digits [of n] e by simp
  have "list_all (\<lambda>c. \<not> is_space c) (str_nat n)"
    using str_nat_digits [of n] by (simp add: list_all_iff digit_not_space)
  then have "py_strip (str_nat n) = d # ds" using e strip_no_space by metis
  then show ?thesis
    using digit_not_sign [OF dg] parse_unsigned_str_nat [of n] e by (simp add: py_int_def)
qed

lemma py_int_py_str: "py_int (py_str i) = Some i"
proof (cases "i < 0")
  case False
  then show ?thesis using py_int_str_nat [of "nat i"] by (simp add: py_str_def)
next
  case True
  have m: "\<not> is_space CHR ''-''" by (simp add: is_space_def)
  have "list_all (\<lambda>c. \<not> is_space c) (str_nat (nat (- i)))"
    using str_nat_digits [of "nat (- i)"] by (simp add: list_all_iff digit_not_space)
  with m have ns: "list_all (\<lambda>c. \<not> is_space c) (CHR ''-'' # str_nat (nat (- i)))"
    by simp
  have "py_strip (CHR ''-'' # str_nat (nat (- i))) = CHR ''-'' # str_nat (nat (- i))"
    by (rule strip_no_space [OF ns])
  then show ?thesis
    using True parse_unsigned_str_nat [of "nat (- i)"] by (simp add: py_str_def py_int_def)
qed

lemma py_str_inj:
  assumes "py_str a = py_str b"
  shows "a = b"
proof -
  have "Some a = py_int (py_str a)" by (simp only: py_int_py_str)
  also have "\<dots> = py_int (py_str b)" by (simp only: assms)
  also have "\<dots> = Some b" by (simp only: py_int_py_str)
  finally show ?thesis by simp
qed

lemma str_nat_um: "str_nat (Suc 0) = ''1''"
  by (subst str_nat.simps) (simp add: char_of_def bit_Suc_0_iff)

lemma py_str_um: "py_str 1 = ''1''"
  by (simp add: py_str_def str_nat_um)

lemma py_str_dois: "py_str 2 = ''2''"
  by (simp add: py_str_def str_nat.simps char_of_def bit_Suc_0_iff)

section \<open>Availability\<close>

lemma sum_list_const_one: "sum_list (map (\<lambda>x. (1::int)) xs) = int (length xs)"
  by (induction xs) simp_all

text \<open>
  C2: the available copies of a game are its total copies minus the number of its rental
  rows whose status is ALUGADO; rows with any other status do not count. The value is a
  function of the rental rows of the database it is read in: with a row more (creation)
  or a row less (deletion) it differs by one exactly when that row is an ALUGADO rental
  of the game, and a change of a row's status moves it by what the row counted before
  and counts after.
\<close>

theorem copias_disponiveis_eq:
  "copias_disponiveis db jid j =
     copias_total j
       - int (length (filter (\<lambda>l. loc_jogo_id l = jid \<and> status l = ''ALUGADO'') (locacoes db)))
   \<and> copias_disponiveis (db\<lparr>locacoes := xs @ l # ys\<rparr>) jid j =
       copias_disponiveis (db\<lparr>locacoes := xs @ ys\<rparr>) jid j
         - (if loc_jogo_id l = jid \<and> status l = ''ALUGADO'' then 1 else 0)
   \<and> copias_disponiveis (db\<lparr>locacoes := xs @ l\<lparr>status := s, data_devolucao_real := r\<rparr> # ys\<rparr>) jid j =
       copias_disponiveis (db\<lparr>locacoes := xs @ l # ys\<rparr>) jid j
         + (if loc_jogo_id l = jid \<and> status l = ''ALUGADO'' then 1 else 0)
         - (if loc_jogo_id l = jid \<and> s = ''ALUGADO'' then 1 else 0)"
  by (simp add: copias_disponiveis_def locacoes_do_jogo_def sum_list_const_one conj_commute)

theorem copias_disponiveis_eq_witness:
  "copias_disponiveis (banco_ex 2 [loc_ex 1 5 ''ALUGADO'' None,
       loc_ex 2 5 ''DEVOLVIDO'' (Some (2024, 1, 9))]) 5 (jogo_ex 2) = 1"
  using copias_disponiveis_eq [of "banco_ex 2 [loc_ex 1 5 ''ALUGADO'' None,
       loc_ex 2 5 ''DEVOLVIDO'' (Some (2024, 1, 9))]" 5 "jogo_ex 2"]
  by (simp add: banco_ex_def loc_ex_def jogo_ex_def)

text \<open>
  The scenario of the specification: two copies and no rental, two available; one rented
  through the form, one available; returned, two again.
\<close>

lemma cenario_disponibilidade:
  "copias_disponiveis (banco_ex 2 []) 5 (jogo_ex 2) = 2
   \<and> r_banco (cadastrar_locacao strptime_ex (banco_ex 2 []) POST (form_ex ''ALUGADO'')
                (2024, 2, 1) None) = banco_ex 2 [loc_ex 1 5 ''ALUGADO'' None]
   \<and> copias_disponiveis (banco_ex 2 [loc_ex 1 5 ''ALUGADO'' None]) 5 (jogo_ex 2) = 1
   \<and> r_banco (devolver_locacao (banco_ex 2 [loc_ex 1 5 ''ALUGADO'' None]) 1 (2024, 2, 8) None)
       = banco_ex 2 [loc_ex 1 5 ''DEVOLVIDO'' (Some (2024, 2, 8))]
   \<and> copias_disponiveis (banco_ex 2 [loc_ex 1 5 ''DEVOLVIDO'' (Some (2024, 2, 8))]) 5 (jogo_ex 2) = 2"
  by (simp add: copias_disponiveis_def locacoes_do_jogo_def banco_ex_def jogo_ex_def loc_ex_def
      cadastrar_locacao_def form_ex_def strptime_ex_def campo_status_def preenchido_def
      py_int_eval ler_data_prevista_def inserir_locacao_def proximo_id_def devolver_locacao_def
      buscar_locacao_def atualizar_locacao_def)

section \<open>Returning a rental\<close>

text \<open>
  C10: the return endpoint on a rental whose status is already DEVOLVIDO changes nothing:
  the database is the one it was given (status and actual return date included, nothing
  is committed) and the only message is the informational one.
\<close>

theorem devolver_locacao_ja_devolvida:
  assumes "buscar_locacao db lid = Some loc" and "status loc = ''DEVOLVIDO''"
  shows "devolver_locacao db lid hoje falha =
           \<lparr>r_banco = db, r_flash = [(Info, LocacaoJaDevolvida)],
            r_resp = Redirect ListarLocacoes\<rparr>"
  using assms by (simp add: devolver_locacao_def)

theorem devolver_locacao_ja_devolvida_witness:
  "r_banco (devolver_locacao (banco_ex 2 [loc_ex 1 5 ''DEVOLVIDO'' (Some (2024, 1, 9))]) 1
             (2024, 2, 1) None)
     = banco_ex 2 [loc_ex 1 5 ''DEVOLVIDO'' (Some (2024, 1, 9))]"
proof -
  have f: "buscar_locacao (banco_ex 2 [loc_ex 1 5 ''DEVOLVIDO'' (Some (2024, 1, 9))]) 1
             = Some (loc_ex 1 5 ''DEVOLVIDO'' (Some (2024, 1, 9)))"
    by (simp add: buscar_locacao_def banco_ex_def loc_ex_def)
  have s: "status (loc_ex 1 5 ''DEVOLVIDO'' (Some (2024, 1, 9))) = ''DEVOLVIDO''"
    by (simp add: loc_ex_def)
  show ?thesis
    using devolver_locacao_ja_devolvida [OF f s, of "(2024, 2, 1)" None] by simp
qed

section \<open>Cart\<close>

lemma cart_get_set: "cart_get (cart_set cart k v) k d = v"
  by (induction cart) (auto simp: cart_get_def)

lemma cart_set_positivas:
  "quantidades_positivas cart \<Longrightarrow> 0 < v \<Longrightarrow> quantidades_positivas (cart_set cart k v)"
  by (induction cart) (auto simp: quantidades_positivas_def)

lemma cart_get_nonneg: "quantidades_positivas cart \<Longrightarrow> 0 \<le> d \<Longrightarrow> 0 \<le> cart_get cart k d"
  by (induction cart) (auto simp: quantidades_positivas_def cart_get_def)

lemma cart_del_positivas:
  "quantidades_positivas cart \<Longrightarrow> quantidades_positivas (cart_del cart k)"
  by (induction cart) (auto simp: quantidades_positivas_def cart_del_def)

lemma finalizar_cart: "fc_cart (finalizar_compra db cart met campo hoje falha) = cart
    \<or> fc_cart (finalizar_compra db cart met campo hoje falha) = []"
  by (simp add: finalizar_compra_def split: option.splits prod.splits)

text \<open>
  C9: every quantity in the cart is strictly positive. The empty cart has the property,
  and each operation keeps it: adding (a requested quantity of zero or less is taken as
  1, and the entry's quantity strictly grows), removing, and the checkout, which leaves
  the cart as it was or empties it.
\<close>

theorem carrinho_quantidades_positivas:
  "quantidades_positivas []
   \<and> (quantidades_positivas cart \<longrightarrow>
        (\<forall>r. adicionar_ao_carrinho cart jid campo = Some r \<longrightarrow>
           quantidades_positivas (c_cart r)
           \<and> cart_get cart jid 0 < cart_get (c_cart r) jid 0))
   \<and> (\<forall>q. ler_quantidade campo = Some q \<and> q \<le> 0 \<longrightarrow>
        map_option c_cart (adicionar_ao_carrinho cart jid campo)
          = Some (cart_set cart jid (cart_get cart jid 0 + 1)))
   \<and> (quantidades_positivas cart \<longrightarrow>
        quantidades_positivas (c_cart (remover_do_carrinho cart jid)))
   \<and> (quantidades_positivas cart \<longrightarrow>
        quantidades_positivas (fc_cart (finalizar_compra db cart met campo_cliente hoje falha)))"
proof -
  have a: "quantidades_positivas []" by (simp add: quantidades_positivas_def)
  have b: "quantidades_positivas (c_cart r) \<and> cart_get cart jid 0 < cart_get (c_cart r) jid 0"
    if p: "quantidades_positivas cart" and r: "adicionar_ao_carrinho cart jid campo = Some r" for r
  proof -
    obtain q0 where q0: "ler_quantidade campo = Some q0"
      using r by (auto simp: adicionar_ao_carrinho_def split: option.splits)
    define q where "q = (if q0 \<le> 0 then 1 else q0)"
    have qpos: "0 < q" by (simp add: q_def)
    have rc: "c_cart r = cart_set cart jid (cart_get cart jid 0 + q)"
      using r q0 by (auto simp: adicionar_ao_carrinho_def q_def Let_def)
    have g: "0 \<le> cart_get cart jid 0" using cart_get_nonneg [OF p] by simp
    from g qpos have "0 < cart_get cart jid 0 + q" by arith
    then have "quantidades_positivas (c_cart r)" using rc cart_set_positivas [OF p] by simp
    moreover have "cart_get cart jid 0 < cart_get (c_cart r) jid 0"
      using rc qpos by (simp add: cart_get_set)
    ultimately show ?thesis by simp
  qed
  have c: "map_option c_cart (adicionar_ao_carrinho cart jid campo)
          = Some (cart_set cart jid (cart_get cart jid 0 + 1))"
    if "ler_quantidade campo = Some q \<and> q \<le> 0" for q
    using that by (simp add: adicionar_ao_carrinho_def)
  have d: "quantidades_positivas (c_cart (remover_do_carrinho cart jid))"
    if "quantidades_positivas cart"
    using that cart_del_positivas [of cart jid] by (simp add: remover_do_carrinho_def)
  have e: "quantidades_positivas (fc_cart (finalizar_compra db cart met campo_cliente hoje falha))"
    if "quantidades_positivas cart"
    using that a finalizar_cart [of db cart met campo_cliente hoje falha] by auto
  from a b c d e show ?thesis by blast
qed

theorem carrinho_quantidades_positivas_witness:
  "quantidades_positivas [(5, 2)]
   \<and> ler_quantidade (Some ''-3'') = Some (- 3)
   \<and> map_option c_cart (adicionar_ao_carrinho [(5, 2)] 5 (Some ''-3'')) = Some [(5, 3)]
   \<and> quantidades_positivas [(5, 3)]
   \<and> c_cart (remover_do_carrinho [(5, 2), (7, 1)] 5) = [(7, 1)]"
proof -
  have p: "quantidades_positivas [(5, 2)]" by (simp add: quantidades_positivas_def)
  have l: "ler_quantidade (Some ''-3'') = Some (- 3)"
    by (simp add: ler_quantidade_def py_int_eval)
  have a: "map_option c_cart (adicionar_ao_carrinho [(5, 2)] 5 (Some ''-3'')) = Some [(5, 3)]"
    using carrinho_quantidades_positivas [of "[(5, 2)]" 5 "Some ''-3''"] l
    by (simp add: cart_get_def)
  then obtain r where r: "adicionar_ao_carrinho [(5, 2)] 5 (Some ''-3'') = Some r"
      and rc: "c_cart r = [(5, 3)]" by auto
  have q: "quantidades_positivas [(5, 3)]"
    using carrinho_quantidades_positivas [of "[(5, 2)]" 5 "Some ''-3''"] p r rc by auto
  have d: "c_cart (remover_do_carrinho [(5, 2), (7, 1)] 5) = [(7, 1)]"
    by (simp add: remover_do_carrinho_def cart_del_def)
  from p l a q d show ?thesis by simp
qed

section \<open>Checkout\<close>

lemma jogos_map_key: "k \<in> fst ` set cart \<Longrightarrow> jogos_map db cart k = jogos db k"
  by (simp add: jogos_map_def)

lemma validar_none_iff:
  "validar_estoque db jm rest = None \<longleftrightarrow>
     (\<forall>(k, v)\<in>set rest. \<forall>j. jm k = Some j \<longrightarrow> v \<le> copias_disponiveis db k j)"
  by (induction db jm rest rule: validar_estoque.induct) (auto split: option.splits)

lemma validar_some_first:
  "validar_estoque db jm rest = Some (t, d) \<Longrightarrow>
     \<exists>pre k v post g. rest = pre @ (k, v) # post
       \<and> (\<forall>(k', v')\<in>set pre. \<forall>j. jm k' = Some j \<longrightarrow> v' \<le> copias_disponiveis db k' j)
       \<and> jm k = Some g \<and> copias_disponiveis db k g < v
       \<and> t = titulo g \<and> d = copias_disponiveis db k g"
proof (induction db jm rest rule: validar_estoque.induct)
  case (1 db jm)
  then show ?case by simp
next
  case (2 db jm jid q rest)
  show ?case
  proof (cases "\<exists>j. jm jid = Some j \<and> copias_disponiveis db jid j < q")
    case True
    then obtain j where j: "jm jid = Some j" "copias_disponiveis db jid j < q" by blast
    with 2(3) have "t = titulo j" "d = copias_disponiveis db jid j" by simp_all
    with j have "(jid, q) # rest = [] @ (jid, q) # rest
       \<and> (\<forall>(k', v')\<in>set []. \<forall>j. jm k' = Some j \<longrightarrow> v' \<le> copias_disponiveis db k' j)
       \<and> jm jid = Some j \<and> copias_disponiveis db jid j < q
       \<and> t = titulo j \<and> d = copias_disponiveis db jid j" by simp
    then show ?thesis by blast
  next
    case False
    then have pass: "\<forall>j. jm jid = Some j \<longrightarrow> q \<le> copias_disponiveis db jid j" by auto
    have v: "validar_estoque db jm rest = Some (t, d)"
      using 2(3) False by (auto split: option.splits if_splits)
    have "\<exists>pre k v post g. rest = pre @ (k, v) # post
       \<and> (\<forall>(k', v')\<in>set pre. \<forall>j. jm k' = Some j \<longrightarrow> v' \<le> copias_disponiveis db k' j)
       \<and> jm k = Some g \<and> copias_disponiveis db k g < v
       \<and> t = titulo g \<and> d = copias_disponiveis db k g"
    proof (cases "jm jid")
      case None
      then show ?thesis using 2(1) v by simp
    next
      case (Some j)
      with pass have "\<not> copias_disponiveis db jid j < q" by auto
      then show ?thesis using 2(2) [OF Some] v by simp
    qed
    then obtain pre k v post g where h: "rest = pre @ (k, v) # post"
       "\<forall>(k', v')\<in>set pre. \<forall>j. jm k' = Some j \<longrightarrow> v' \<le> copias_disponiveis db k' j"
       "jm k = Some g" "copias_disponiveis db k g < v"
       "t = titulo g" "d = copias_disponiveis db k g" by blast
    from h pass have "(jid, q) # rest = ((jid, q) # pre) @ (k, v) # post
       \<and> (\<forall>(k', v')\<in>set ((jid, q) # pre). \<forall>j. jm k' = Some j \<longrightarrow> v' \<le> copias_disponiveis db k' j)
       \<and> jm k = Some g \<and> copias_disponiveis db k g < v
       \<and> t = titulo g \<and> d = copias_disponiveis db k g" by simp
    then show ?thesis by blast
  qed
qed

text \<open>
  C1: checkout is all or nothing. When some cart line asks for more copies than its game
  has available, the database (orders, order lines, total copies) and the cart come out
  as they went in, whatever the request; and for a POST with a customer that exists the
  answer is the error message that names the first such game in the cart's order.
\<close>

theorem finalizar_compra_tudo_ou_nada:
  assumes linha: "(jid, q) \<in> set cart"
      and jogo: "jogos db jid = Some j"
      and falta: "copias_disponiveis db jid j < q"
  shows "fc_banco (finalizar_compra db cart met campo hoje falha) = db
     \<and> fc_cart (finalizar_compra db cart met campo hoje falha) = cart
     \<and> (met = POST \<and> campo = Some texto \<and> py_int texto = Some cid \<and> clientes db cid = Some cli
          \<longrightarrow> (\<exists>pre k v post g.
                 cart = pre @ (k, v) # post
               \<and> (\<forall>(k', v')\<in>set pre. \<forall>j'. jogos db k' = Some j' \<longrightarrow> v' \<le> copias_disponiveis db k' j')
               \<and> jogos db k = Some g \<and> copias_disponiveis db k g < v
               \<and> finalizar_compra db cart met campo hoje falha =
                   \<lparr>fc_banco = db, fc_cart = cart,
                    fc_flash = [(Erro, EstoqueInsuficiente (titulo g) (copias_disponiveis db k g))],
                    fc_resp = Redirect VerCarrinho\<rparr>))"
proof -
  let ?jm = "jogos_map db cart"
  have key: "jid \<in> fst ` set cart" using linha by force
  have "?jm jid = Some j" using jogos_map_key [OF key] jogo by simp
  with linha falta have "\<not> (\<forall>(k, v)\<in>set cart. \<forall>j. ?jm k = Some j \<longrightarrow> v \<le> copias_disponiveis db k j)"
    by fastforce
  then have "validar_estoque db ?jm cart \<noteq> None"
    by (simp only: validar_none_iff not_False_eq_True)
  then obtain t d where v: "validar_estoque db ?jm cart = Some (t, d)" by auto
  have unchanged: "fc_banco (finalizar_compra db cart met campo hoje falha) = db
     \<and> fc_cart (finalizar_compra db cart met campo hoje falha) = cart"
    using v by (simp add: finalizar_compra_def split: option.splits)
  have named: "\<exists>pre k v post g.
                 cart = pre @ (k, v) # post
               \<and> (\<forall>(k', v')\<in>set pre. \<forall>j'. jogos db k' = Some j' \<longrightarrow> v' \<le> copias_disponiveis db k' j')
               \<and> jogos db k = Some g \<and> copias_disponiveis db k g < v
               \<and> finalizar_compra db cart met campo hoje falha =
                   \<lparr>fc_banco = db, fc_cart = cart,
                    fc_flash = [(Erro, EstoqueInsuficiente (titulo g) (copias_disponiveis db k g))],
                    fc_resp = Redirect VerCarrinho\<rparr>"
    if h: "met = POST" "campo = Some texto" "py_int texto = Some cid" "clientes db cid = Some cli"
  proof -
    from validar_some_first [OF v] obtain pre k v' post g where f:
      "cart = pre @ (k, v') # post"
      "\<forall>(k', v'')\<in>set pre. \<forall>j. ?jm k' = Some j \<longrightarrow> v'' \<le> copias_disponiveis db k' j"
      "?jm k = Some g" "copias_disponiveis db k g < v'"
      "t = titulo g" "d = copias_disponiveis db k g" by blast
    have kk: "k \<in> fst ` set cart" using f(1) by force
    have g: "jogos db k = Some g" using f(3) jogos_map_key [OF kk] by simp
    have pre: "\<forall>(k', v'')\<in>set pre. \<forall>j'. jogos db k' = Some j' \<longrightarrow> v'' \<le> copias_disponiveis db k' j'"
    proof (clarify)
      fix k' v'' j'
      assume m: "(k', v'') \<in> set pre" and jj: "jogos db k' = Some j'"
      from m f(1) have "k' \<in> fst ` set cart" by force
      then have "?jm k' = Some j'" using jogos_map_key jj by simp
      with f(2) m show "v'' \<le> copias_disponiveis db k' j'" by blast
    qed
    have ne: "cart \<noteq> []" using f(1) by simp
    have tx: "texto \<noteq> []" using h(3) by (auto simp: py_int_def py_strip_def)
    have res: "finalizar_compra db cart met campo hoje falha =
                   \<lparr>fc_banco = db, fc_cart = cart,
                    fc_flash = [(Erro, EstoqueInsuficiente (titulo g) (copias_disponiveis db k g))],
                    fc_resp = Redirect VerCarrinho\<rparr>"
      using ne tx h v f(5,6) by (simp add: finalizar_compra_def preenchido_def)
    from f(1) pre g f(4) res show ?thesis by blast
  qed
  from unchanged named show ?thesis by blast
qed

theorem finalizar_compra_tudo_ou_nada_witness:
  "(5, 3) \<in> set [(5, 3)]
   \<and> jogos (banco_ex 1 []) 5 = Some (jogo_ex 1)
   \<and> copias_disponiveis (banco_ex 1 []) 5 (jogo_ex 1) < 3
   \<and> py_int ''1'' = Some 1
   \<and> clientes (banco_ex 1 []) 1 = Some cliente_ex
   \<and> finalizar_compra (banco_ex 1 []) [(5, 3)] POST (Some ''1'') (2024, 2, 1) None
       = \<lparr>fc_banco = banco_ex 1 [], fc_cart = [(5, 3)],
          fc_flash = [(Erro, EstoqueInsuficiente ''Tetris'' 1)],
          fc_resp = Redirect VerCarrinho\<rparr>"
proof -
  let ?db = "banco_ex 1 []"
  have h1: "(5, 3) \<in> set [(5::int, 3::int)]" by simp
  have h2: "jogos ?db 5 = Some (jogo_ex 1)" by (simp add: banco_ex_def)
  have h3: "copias_disponiveis ?db 5 (jogo_ex 1) < 3"
    by (simp add: copias_disponiveis_def locacoes_do_jogo_def banco_ex_def jogo_ex_def)
  have p: "py_int ''1'' = Some 1" by (simp add: py_int_eval)
  have c: "clientes ?db 1 = Some cliente_ex" by (simp add: banco_ex_def)
  from finalizar_compra_tudo_ou_nada [OF h1 h2 h3, of POST "Some ''1''" "(2024, 2, 1)" None
          "''1''" 1 cliente_ex] p c
  obtain pre k v post g where f: "[(5::int, 3::int)] = pre @ (k, v) # post"
      "jogos ?db k = Some g"
      "finalizar_compra ?db [(5, 3)] POST (Some ''1'') (2024, 2, 1) None =
         \<lparr>fc_banco = ?db, fc_cart = [(5, 3)],
          fc_flash = [(Erro, EstoqueInsuficiente (titulo g) (copias_disponiveis ?db k g))],
          fc_resp = Redirect VerCarrinho\<rparr>"
    by auto
  from f(1) have k: "k = 5" by (cases pre) simp_all
  with f(2) h2 have g: "g = jogo_ex 1" by simp
  have "titulo g = ''Tetris''" "copias_disponiveis ?db k g = 1"
    using k g by (simp_all add: copias_disponiveis_def locacoes_do_jogo_def banco_ex_def jogo_ex_def)
  with f(3) h1 h2 h3 p c show ?thesis by simp
qed

subsection \<open>The clamp of the decrement\<close>

lemma abater_sem_clamp_eq: "q \<le> copias_total j \<Longrightarrow> abater_estoque j q = abater_sem_clamp j q"
  by (simp add: abater_estoque_def abater_sem_clamp_def Let_def)

lemma criar_itens_sem_clamp_eq:
  "distinct (map fst rest) \<Longrightarrow>
   (\<forall>(k, v)\<in>set rest. \<forall>j. jm k = Some j \<longrightarrow> v \<le> copias_total j) \<Longrightarrow>
   criar_itens pid rest (jm, itens) = criar_itens_sem_clamp pid rest (jm, itens)"
proof (induction rest arbitrary: jm itens)
  case Nil
  then show ?case by simp
next
  case (Cons a rest)
  obtain jid q where a: "a = (jid, q)" by (cases a)
  have d: "distinct (map fst rest)" and nk: "jid \<notin> fst ` set rest"
    using Cons.prems(1) a by auto
  show ?case
  proof (cases "jm jid")
    case None
    have "\<forall>(k, v)\<in>set rest. \<forall>j. jm k = Some j \<longrightarrow> v \<le> copias_total j"
      using Cons.prems(2) by auto
    then show ?thesis using None a Cons.IH [OF d] by simp
  next
    case (Some j)
    have le: "q \<le> copias_total j" using Cons.prems(2) Some a by auto
    have "\<forall>(k, v)\<in>set rest. \<forall>j'. (jm(jid \<mapsto> abater_sem_clamp j q)) k = Some j' \<longrightarrow> v \<le> copias_total j'"
    proof (clarify)
      fix k v j'
      assume m: "(k, v) \<in> set rest" and s: "(jm(jid \<mapsto> abater_sem_clamp j q)) k = Some j'"
      from m nk have "k \<noteq> jid" by force
      with s have "jm k = Some j'" by simp
      with Cons.prems(2) m show "v \<le> copias_total j'" by auto
    qed
    from Cons.IH [OF d this]
    have "criar_itens pid rest (jm(jid \<mapsto> abater_sem_clamp j q),
             itens @ [\<lparr>item_id = proximo_id (map item_id itens), item_pedido_id = pid,
                       item_jogo_id = jid, quantidade = q\<rparr>])
        = criar_itens_sem_clamp pid rest (jm(jid \<mapsto> abater_sem_clamp j q),
             itens @ [\<lparr>item_id = proximo_id (map item_id itens), item_pedido_id = pid,
                       item_jogo_id = jid, quantidade = q\<rparr>])" .
    then show ?thesis
      using Some a abater_sem_clamp_eq [OF le] by simp
  qed
qed

lemma criar_itens_sem_clamp_map:
  "distinct (map fst rest) \<Longrightarrow>
   fst (criar_itens_sem_clamp pid rest (jm, itens)) k =
     (case map_of rest k of
        None \<Rightarrow> jm k
      | Some q \<Rightarrow> map_option (\<lambda>j. abater_sem_clamp j q) (jm k))"
proof (induction rest arbitrary: jm itens)
  case Nil
  then show ?case by simp
next
  case (Cons a rest)
  obtain jid q where a: "a = (jid, q)" by (cases a)
  have d: "distinct (map fst rest)" and nk: "jid \<notin> fst ` set rest"
    using Cons.prems(1) a by auto
  have mo: "map_of rest jid = None" using nk by (simp add: map_of_eq_None_iff)
  show ?case
  proof (cases "jm jid")
    case None
    then show ?thesis using a Cons.IH [OF d] mo by (auto split: option.splits)
  next
    case (Some j)
    then show ?thesis using a Cons.IH [OF d] mo by (auto split: option.splits)
  qed
qed

lemma disponiveis_le_total: "copias_disponiveis db k j \<le> copias_total j"
  by (simp add: copias_disponiveis_def sum_list_const_one)

lemma estoque_total:
  assumes "\<forall>(jid, q)\<in>set cart. \<forall>j. jogos db jid = Some j \<longrightarrow> q \<le> copias_disponiveis db jid j"
  shows "\<forall>(k, v)\<in>set cart. \<forall>j. jogos_map db cart k = Some j \<longrightarrow> v \<le> copias_total j"
proof (clarify)
  fix k v j assume m: "(k, v) \<in> set cart" and s: "jogos_map db cart k = Some j"
  from m have "k \<in> fst ` set cart" by force
  then have "jogos db k = Some j" using jogos_map_key s by simp
  with assms m have "v \<le> copias_disponiveis db k j" by blast
  then show "v \<le> copias_total j" using disponiveis_le_total [of db k j] by arith
qed

lemma estoque_valida:
  assumes "\<forall>(jid, q)\<in>set cart. \<forall>j. jogos db jid = Some j \<longrightarrow> q \<le> copias_disponiveis db jid j"
  shows "validar_estoque db (jogos_map db cart) cart = None"
proof -
  have "\<forall>(k, v)\<in>set cart. \<forall>j. jogos_map db cart k = Some j \<longrightarrow> v \<le> copias_disponiveis db k j"
  proof (clarify)
    fix k v j assume m: "(k, v) \<in> set cart" and s: "jogos_map db cart k = Some j"
    from m have "k \<in> fst ` set cart" by force
    then have "jogos db k = Some j" using jogos_map_key s by simp
    with assms m show "v \<le> copias_disponiveis db k j" by blast
  qed
  then show ?thesis by (simp add: validar_none_iff)
qed

lemma validar_estoque_iff:
  "(validar_estoque db (jogos_map db cart) cart = None) =
     (\<forall>(jid, q)\<in>set cart. \<forall>j. jogos db jid = Some j \<longrightarrow> q \<le> copias_disponiveis db jid j)"
proof
  assume v: "validar_estoque db (jogos_map db cart) cart = None"
  show "\<forall>(jid, q)\<in>set cart. \<forall>j. jogos db jid = Some j \<longrightarrow> q \<le> copias_disponiveis db jid j"
  proof (clarify)
    fix k q j assume m: "(k, q) \<in> set cart" and s: "jogos db k = Some j"
    from m have "k \<in> fst ` set cart" by force
    then have "jogos_map db cart k = Some j" using jogos_map_key s by simp
    with v m show "q \<le> copias_disponiveis db k j" by (auto simp: validar_none_iff)
  qed
next
  assume "\<forall>(jid, q)\<in>set cart. \<forall>j. jogos db jid = Some j \<longrightarrow> q \<le> copias_disponiveis db jid j"
  then show "validar_estoque db (jogos_map db cart) cart = None" by (rule estoque_valida)
qed

text \<open>
  C5: for a cart whose keys are distinct, as the keys of a dict are, the stock check of
  the checkout passes exactly when every cart line asks for no more than the available
  copies of its game (available being total copies minus active rentals); and when it
  passes, the clamp at zero never fires: the loop gives what the loop without the clamp
  gives, and in that result no game's total copies is below zero.
\<close>

theorem clamp_inalcancavel:
  assumes chaves: "distinct (map fst cart)"
  shows "(validar_estoque db (jogos_map db cart) cart = None) =
           (\<forall>(jid, q)\<in>set cart. \<forall>j. jogos db jid = Some j
               \<longrightarrow> q \<le> copias_disponiveis db jid j)
     \<and> (validar_estoque db (jogos_map db cart) cart = None \<longrightarrow>
           criar_itens pid cart (jogos_map db cart, itens)
             = criar_itens_sem_clamp pid cart (jogos_map db cart, itens)
         \<and> (\<forall>k g. fst (criar_itens_sem_clamp pid cart (jogos_map db cart, itens)) k = Some g
                  \<longrightarrow> 0 \<le> copias_total g))"
proof -
  let ?jm = "jogos_map db cart"
  have sem: "criar_itens pid cart (?jm, itens) = criar_itens_sem_clamp pid cart (?jm, itens)
         \<and> (\<forall>k g. fst (criar_itens_sem_clamp pid cart (?jm, itens)) k = Some g
                  \<longrightarrow> 0 \<le> copias_total g)"
    if v: "validar_estoque db ?jm cart = None"
  proof -
    have estoque: "\<forall>(jid, q)\<in>set cart. \<forall>j. jogos db jid = Some j
               \<longrightarrow> q \<le> copias_disponiveis db jid j"
      using v by (simp only: validar_estoque_iff)
    note tot = estoque_total [OF estoque]
    have e: "criar_itens pid cart (?jm, itens) = criar_itens_sem_clamp pid cart (?jm, itens)"
      by (rule criar_itens_sem_clamp_eq [OF chaves tot])
    have nn: "0 \<le> copias_total g"
      if r: "fst (criar_itens_sem_clamp pid cart (?jm, itens)) k = Some g" for k g
    proof (cases "map_of cart k")
      case None
      then have "k \<notin> fst ` set cart" by (simp add: map_of_eq_None_iff)
      then have "?jm k = None" by (simp add: jogos_map_def)
      with r None show ?thesis by (simp add: criar_itens_sem_clamp_map [OF chaves])
    next
      case (Some q)
      then have m: "(k, q) \<in> set cart" by (rule map_of_SomeD)
      from r Some obtain j where j: "?jm k = Some j" "g = abater_sem_clamp j q"
        by (auto simp: criar_itens_sem_clamp_map [OF chaves])
      from tot m j(1) have "q \<le> copias_total j" by blast
      then show ?thesis using j(2) by (simp add: abater_sem_clamp_def)
    qed
    from e nn show ?thesis by blast
  qed
  from validar_estoque_iff [of db cart] sem show ?thesis by blast
qed

theorem clamp_inalcancavel_witness:
  "distinct (map fst [(5::int, 2::int)])
   \<and> jogos (banco_ex 3 [loc_ex 1 5 ''ALUGADO'' None]) 5 = Some (jogo_ex 3)
   \<and> copias_disponiveis (banco_ex 3 [loc_ex 1 5 ''ALUGADO'' None]) 5 (jogo_ex 3) = 2
   \<and> validar_estoque (banco_ex 3 [loc_ex 1 5 ''ALUGADO'' None])
        (jogos_map (banco_ex 3 [loc_ex 1 5 ''ALUGADO'' None]) [(5, 2)]) [(5, 2)] = None
   \<and> criar_itens 1 [(5, 2)] (jogos_map (banco_ex 3 [loc_ex 1 5 ''ALUGADO'' None]) [(5, 2)], [])
       = criar_itens_sem_clamp 1 [(5, 2)]
           (jogos_map (banco_ex 3 [loc_ex 1 5 ''ALUGADO'' None]) [(5, 2)], [])"
proof -
  let ?db = "banco_ex 3 [loc_ex 1 5 ''ALUGADO'' None]"
  have d: "distinct (map fst [(5::int, 2::int)])" by simp
  have j: "jogos ?db 5 = Some (jogo_ex 3)" by (simp add: banco_ex_def)
  have a: "copias_disponiveis ?db 5 (jogo_ex 3) = 2"
    by (simp add: copias_disponiveis_def locacoes_do_jogo_def banco_ex_def jogo_ex_def loc_ex_def)
  have e: "\<forall>(jid, q)\<in>set [(5, 2)]. \<forall>j. jogos ?db jid = Some j
          \<longrightarrow> q \<le> copias_disponiveis ?db jid j"
    by (simp add: copias_disponiveis_def locacoes_do_jogo_def banco_ex_def jogo_ex_def loc_ex_def)
  note t = clamp_inalcancavel [OF d, of ?db 1 "[]"]
  from t e have v: "validar_estoque ?db (jogos_map ?db [(5, 2)]) [(5, 2)] = None" by blast
  with t have c: "criar_itens 1 [(5, 2)] (jogos_map ?db [(5, 2)], [])
       = criar_itens_sem_clamp 1 [(5, 2)] (jogos_map ?db [(5, 2)], [])" by blast
  show ?thesis by (rule conjI [OF d conjI [OF j conjI [OF a conjI [OF v c]]]])
qed

subsection \<open>A checkout that succeeds\<close>

lemma criar_itens_itens:
  "\<exists>novos. snd (criar_itens pid rest (jm, itens)) = itens @ novos
     \<and> map linha_do_item novos = map (\<lambda>(k, q). (pid, k, q)) (filter (\<lambda>(k, q). jm k \<noteq> None) rest)"
proof (induction rest arbitrary: jm itens)
  case Nil
  then show ?case by simp
next
  case (Cons a rest)
  obtain jid q where a: "a = (jid, q)" by (cases a)
  show ?case
  proof (cases "jm jid")
    case None
    from Cons.IH [of jm itens] show ?thesis using None a by simp
  next
    case (Some j)
    let ?it = "\<lparr>item_id = proximo_id (map item_id itens), item_pedido_id = pid,
                 item_jogo_id = jid, quantidade = q\<rparr>"
    let ?jm = "jm(jid \<mapsto> abater_estoque j q)"
    have fe: "filter (\<lambda>(k, q). ?jm k \<noteq> None) rest = filter (\<lambda>(k, q). jm k \<noteq> None) rest"
      by (rule filter_cong) (use Some in \<open>auto split: if_splits\<close>)
    from Cons.IH [of ?jm "itens @ [?it]"] obtain novos where
      n: "snd (criar_itens pid rest (?jm, itens @ [?it])) = (itens @ [?it]) @ novos"
         "map linha_do_item novos
            = map (\<lambda>(k, q). (pid, k, q)) (filter (\<lambda>(k, q). ?jm k \<noteq> None) rest)"
      by blast
    have s: "snd (criar_itens pid (a # rest) (jm, itens)) = itens @ (?it # novos)"
      using n(1) Some a by simp
    have m: "map linha_do_item (?it # novos)
            = map (\<lambda>(k, q). (pid, k, q)) (filter (\<lambda>(k, q). jm k \<noteq> None) (a # rest))"
      using n(2) Some a unfolding fe by (simp add: linha_do_item_def)
    from s m show ?thesis by blast
  qed
qed

lemma gravar_jogos:
  assumes chaves: "distinct (map fst cart)"
      and estoque: "\<forall>(jid, q)\<in>set cart. \<forall>j. jogos db jid = Some j \<longrightarrow> q \<le> copias_disponiveis db jid j"
  shows "jogos (gravar_pedido db cart cid hoje) k =
           (case map_of cart k of
              None \<Rightarrow> jogos db k
            | Some q \<Rightarrow> map_option (\<lambda>j. j\<lparr>copias_total := copias_total j - q\<rparr>) (jogos db k))"
proof -
  let ?pid = "proximo_id (map pedido_id (pedidos db))"
  let ?st = "criar_itens ?pid cart (jogos_map db cart, itens_pedido db)"
  have e: "?st = criar_itens_sem_clamp ?pid cart (jogos_map db cart, itens_pedido db)"
    by (rule criar_itens_sem_clamp_eq [OF chaves estoque_total [OF estoque]])
  have j: "jogos (gravar_pedido db cart cid hoje) = jogos db ++ fst ?st"
    by (simp add: gravar_pedido_def Let_def split: prod.splits)
  show ?thesis
  proof (cases "map_of cart k")
    case None
    then have "k \<notin> fst ` set cart" by (simp add: map_of_eq_None_iff)
    then have "jogos_map db cart k = None" by (simp add: jogos_map_def)
    then have "fst ?st k = None"
      using None by (simp add: e criar_itens_sem_clamp_map [OF chaves])
    then show ?thesis using None j by (simp add: map_add_def)
  next
    case (Some q)
    then have "(k, q) \<in> set cart" by (rule map_of_SomeD)
    then have "k \<in> fst ` set cart" by force
    then have jm: "jogos_map db cart k = jogos db k" by (rule jogos_map_key)
    have f: "fst ?st k = map_option (\<lambda>j. abater_sem_clamp j q) (jogos db k)"
      using Some jm by (simp add: e criar_itens_sem_clamp_map [OF chaves])
    show ?thesis
      using Some j f by (cases "jogos db k") (simp_all add: map_add_def abater_sem_clamp_def)
  qed
qed

lemma gravar_itens:
  "\<exists>novos. itens_pedido (gravar_pedido db cart cid hoje) = itens_pedido db @ novos
     \<and> map linha_do_item novos =
         map (\<lambda>(k, q). (proximo_id (map pedido_id (pedidos db)), k, q))
             (filter (\<lambda>(k, q). jogos db k \<noteq> None) cart)"
proof -
  let ?pid = "proximo_id (map pedido_id (pedidos db))"
  let ?st = "criar_itens ?pid cart (jogos_map db cart, itens_pedido db)"
  have i: "itens_pedido (gravar_pedido db cart cid hoje) = snd ?st"
    by (simp add: gravar_pedido_def Let_def split: prod.splits)
  have fl: "filter (\<lambda>(k, q). jogos_map db cart k \<noteq> None) cart
          = filter (\<lambda>(k, q). jogos db k \<noteq> None) cart"
  proof (rule filter_cong [OF refl])
    fix x assume x: "x \<in> set cart"
    obtain k q where kq: "x = (k, q)" by (cases x)
    with x have "k \<in> fst ` set cart" by force
    then have "jogos_map db cart k = jogos db k" by (rule jogos_map_key)
    then show "(case x of (k, q) \<Rightarrow> jogos_map db cart k \<noteq> None)
             = (case x of (k, q) \<Rightarrow> jogos db k \<noteq> None)" using kq by simp
  qed
  from criar_itens_itens [of ?pid cart "jogos_map db cart" "itens_pedido db"]
  show ?thesis using i fl by simp
qed

lemma gravar_resto:
  "pedidos (gravar_pedido db cart cid hoje) =
     pedidos db @ [\<lparr>pedido_id = proximo_id (map pedido_id (pedidos db)), ped_cliente_id = cid,
                    ped_data = hoje, ped_status = ''CONCLUIDO''\<rparr>]
   \<and> clientes (gravar_pedido db cart cid hoje) = clientes db
   \<and> locacoes (gravar_pedido db cart cid hoje) = locacoes db"
  by (simp add: gravar_pedido_def Let_def split: prod.splits)

text \<open>
  C3 (amended): a checkout that succeeds (a POST for a customer that exists, on a cart
  that is not empty and whose keys are distinct, as the keys of a dict are, every line
  asking for no more than the available copies of its game, and a commit that does not
  raise) empties the cart, adds exactly one order row, adds
  one order line, with the line's quantity, for each cart entry whose game is in the
  database, in the cart's order, and lowers the total copies of each of those games by
  exactly the quantity bought. A cart entry whose game is not in the database is skipped:
  it gets no order line.
\<close>

theorem finalizar_compra_sucesso:
  assumes chaves: "distinct (map fst cart)"
      and itens: "cart \<noteq> []"
      and texto: "py_int texto = Some cid"
      and cli: "clientes db cid = Some c"
      and estoque: "\<forall>(jid, q)\<in>set cart. \<forall>j. jogos db jid = Some j \<longrightarrow> q \<le> copias_disponiveis db jid j"
  shows "fc_cart (finalizar_compra db cart POST (Some texto) hoje None) = []
     \<and> fc_flash (finalizar_compra db cart POST (Some texto) hoje None) = [(Sucesso, CompraFinalizada)]
     \<and> pedidos (fc_banco (finalizar_compra db cart POST (Some texto) hoje None)) =
         pedidos db @ [\<lparr>pedido_id = proximo_id (map pedido_id (pedidos db)), ped_cliente_id = cid,
                        ped_data = hoje, ped_status = ''CONCLUIDO''\<rparr>]
     \<and> (\<exists>novos. itens_pedido (fc_banco (finalizar_compra db cart POST (Some texto) hoje None))
                  = itens_pedido db @ novos
           \<and> map linha_do_item novos =
               map (\<lambda>(k, q). (proximo_id (map pedido_id (pedidos db)), k, q))
                   (filter (\<lambda>(k, q). jogos db k \<noteq> None) cart))
     \<and> (\<forall>k. jogos (fc_banco (finalizar_compra db cart POST (Some texto) hoje None)) k =
           (case map_of cart k of
              None \<Rightarrow> jogos db k
            | Some q \<Rightarrow> map_option (\<lambda>j. j\<lparr>copias_total := copias_total j - q\<rparr>) (jogos db k)))"
proof -
  have tx: "texto \<noteq> []" using texto by (auto simp: py_int_def py_strip_def)
  have r: "finalizar_compra db cart POST (Some texto) hoje None =
             \<lparr>fc_banco = gravar_pedido db cart cid hoje, fc_cart = [],
              fc_flash = [(Sucesso, CompraFinalizada)], fc_resp = Redirect Loja\<rparr>"
    using itens tx texto cli estoque_valida [OF estoque]
    by (simp add: finalizar_compra_def preenchido_def)
  show ?thesis
    using gravar_resto [of db cart cid hoje] gravar_itens [of db cart cid hoje]
      gravar_jogos [OF chaves estoque, of cid hoje]
    by (simp add: r)
qed

text \<open>
  Counterexample to C3 as it is stated: with a cart of one entry whose game is not in
  the database the checkout succeeds and creates the order, but no order line.
\<close>

theorem finalizar_compra_linha_sem_jogo:
  "py_int ''1'' = Some 1
   \<and> clientes (banco_ex 1 []) 1 = Some cliente_ex
   \<and> jogos (banco_ex 1 []) 7 = None
   \<and> fc_flash (finalizar_compra (banco_ex 1 []) [(7, 1)] POST (Some ''1'') (2024, 2, 1) None)
       = [(Sucesso, CompraFinalizada)]
   \<and> length (pedidos (fc_banco
        (finalizar_compra (banco_ex 1 []) [(7, 1)] POST (Some ''1'') (2024, 2, 1) None))) = 1
   \<and> itens_pedido (fc_banco
        (finalizar_compra (banco_ex 1 []) [(7, 1)] POST (Some ''1'') (2024, 2, 1) None)) = []"
  by (simp add: finalizar_compra_def preenchido_def py_int_eval banco_ex_def gravar_pedido_def
      jogos_map_def restrict_map_def)

theorem finalizar_compra_sucesso_witness:
  "distinct (map fst [(5::int, 2::int)])
   \<and> py_int ''1'' = Some 1
   \<and> clientes (banco_ex 3 [loc_ex 1 5 ''ALUGADO'' None]) 1 = Some cliente_ex
   \<and> jogos (banco_ex 3 [loc_ex 1 5 ''ALUGADO'' None]) 5 = Some (jogo_ex 3)
   \<and> copias_disponiveis (banco_ex 3 [loc_ex 1 5 ''ALUGADO'' None]) 5 (jogo_ex 3) = 2
   \<and> fc_cart (finalizar_compra (banco_ex 3 [loc_ex 1 5 ''ALUGADO'' None]) [(5, 2)] POST
               (Some ''1'') (2024, 2, 1) None) = []
   \<and> jogos (fc_banco (finalizar_compra (banco_ex 3 [loc_ex 1 5 ''ALUGADO'' None]) [(5, 2)] POST
               (Some ''1'') (2024, 2, 1) None)) 5 = Some (jogo_ex 1)"
proof -
  let ?db = "banco_ex 3 [loc_ex 1 5 ''ALUGADO'' None]"
  have d: "distinct (map fst [(5::int, 2::int)])" by simp
  have n: "[(5::int, 2::int)] \<noteq> []" by simp
  have p: "py_int ''1'' = Some 1" by (simp add: py_int_eval)
  have c: "clientes ?db 1 = Some cliente_ex" by (simp add: banco_ex_def)
  have e: "\<forall>(jid, q)\<in>set [(5, 2)]. \<forall>j. jogos ?db jid = Some j
          \<longrightarrow> q \<le> copias_disponiveis ?db jid j"
    by (simp add: copias_disponiveis_def locacoes_do_jogo_def banco_ex_def jogo_ex_def loc_ex_def)
  have j: "jogos ?db 5 = Some (jogo_ex 3)" by (simp add: banco_ex_def)
  have a: "copias_disponiveis ?db 5 (jogo_ex 3) = 2"
    by (simp add: copias_disponiveis_def locacoes_do_jogo_def banco_ex_def jogo_ex_def loc_ex_def)
  from finalizar_compra_sucesso [OF d n p c e, of "(2024, 2, 1)"] d p c j a
  show ?thesis by (simp add: jogo_ex_def)
qed

section \<open>Creating a rental\<close>

lemma py_int_nonempty: "py_int s = Some n \<Longrightarrow> s \<noteq> []"
  by (auto simp: py_int_def py_strip_def)

text \<open>
  C6: for a rental form whose customer, game and dates are valid, a rental with status
  ALUGADO is rejected with the error message, the database unchanged, when the game has no
  available copy, and is created when it has one; a rental recorded as already returned
  (status DEVOLVIDO) is created whatever the available copies are, its actual return date
  being today.
\<close>

theorem cadastrar_locacao_disponibilidade:
  assumes cli: "fl_cliente_id form = Some tc" "py_int tc = Some cid" "clientes db cid = Some c"
      and jog: "fl_jogo_id form = Some tj" "py_int tj = Some jid" "jogos db jid = Some j"
      and ret: "fl_data_retirada form = Some tr" "tr \<noteq> []" "strptime tr = Some retirada"
      and prev: "ler_data_prevista strptime (fl_data_devolucao_prevista form) = Some prevista"
  shows "(campo_status (fl_status form) = ''ALUGADO'' \<and> copias_disponiveis db jid j \<le> 0 \<longrightarrow>
            cadastrar_locacao strptime db POST form hoje falha =
              \<lparr>r_banco = db, r_flash = [(Erro, SemCopiasDisponiveis (titulo j))],
               r_resp = Redirect CadastrarLocacao\<rparr>)
       \<and> (campo_status (fl_status form) = ''ALUGADO'' \<and> 0 < copias_disponiveis db jid j \<longrightarrow>
            r_banco (cadastrar_locacao strptime db POST form hoje None) =
              db\<lparr>locacoes := locacoes db @
                 [\<lparr>locacao_id = proximo_id (map locacao_id (locacoes db)), loc_cliente_id = cid,
                   loc_jogo_id = jid, data_retirada = retirada,
                   data_devolucao_prevista = prevista, data_devolucao_real = None,
                   status = ''ALUGADO''\<rparr>]\<rparr>)
       \<and> (campo_status (fl_status form) = ''DEVOLVIDO'' \<longrightarrow>
            r_banco (cadastrar_locacao strptime db POST form hoje None) =
              db\<lparr>locacoes := locacoes db @
                 [\<lparr>locacao_id = proximo_id (map locacao_id (locacoes db)), loc_cliente_id = cid,
                   loc_jogo_id = jid, data_retirada = retirada,
                   data_devolucao_prevista = prevista, data_devolucao_real = Some hoje,
                   status = ''DEVOLVIDO''\<rparr>]\<rparr>)"
proof -
  have ne: "tc \<noteq> []" "tj \<noteq> []"
    using cli(2) jog(2) by (auto dest: py_int_nonempty)
  have pre: "preenchido (fl_cliente_id form) \<and> preenchido (fl_jogo_id form)
           \<and> preenchido (fl_data_retirada form)"
    using cli(1) jog(1) ret(1,2) ne by (simp add: preenchido_def)
  show ?thesis
    using pre cli jog ret prev
    by (simp add: cadastrar_locacao_def rejeitar_def inserir_locacao_def Let_def)
qed

theorem cadastrar_locacao_disponibilidade_witness:
  "copias_disponiveis (banco_ex 1 [loc_ex 1 5 ''ALUGADO'' None]) 5 (jogo_ex 1) \<le> 0
   \<and> r_banco (cadastrar_locacao strptime_ex (banco_ex 1 [loc_ex 1 5 ''ALUGADO'' None]) POST
                (form_ex ''ALUGADO'') (2024, 2, 1) None)
       = banco_ex 1 [loc_ex 1 5 ''ALUGADO'' None]
   \<and> r_banco (cadastrar_locacao strptime_ex (banco_ex 1 [loc_ex 1 5 ''ALUGADO'' None]) POST
                (form_ex ''DEVOLVIDO'') (2024, 2, 1) None)
       = banco_ex 1 [loc_ex 1 5 ''ALUGADO'' None, loc_ex 2 5 ''DEVOLVIDO'' (Some (2024, 2, 1))]
   \<and> r_banco (cadastrar_locacao strptime_ex (banco_ex 2 [loc_ex 1 5 ''ALUGADO'' None]) POST
                (form_ex ''ALUGADO'') (2024, 2, 1) None)
       = banco_ex 2 [loc_ex 1 5 ''ALUGADO'' None, loc_ex 2 5 ''ALUGADO'' None]"
proof -
  let ?db = "banco_ex 1 [loc_ex 1 5 ''ALUGADO'' None]"
  let ?db2 = "banco_ex 2 [loc_ex 1 5 ''ALUGADO'' None]"
  have p1: "py_int ''1'' = Some 1" and p5: "py_int ''5'' = Some 5" by (simp_all add: py_int_eval)
  have c: "clientes ?db 1 = Some cliente_ex" "clientes ?db2 1 = Some cliente_ex"
    by (simp_all add: banco_ex_def)
  have j: "jogos ?db 5 = Some (jogo_ex 1)" "jogos ?db2 5 = Some (jogo_ex 2)"
    by (simp_all add: banco_ex_def)
  have r: "''2024-01-02'' \<noteq> []" "strptime_ex ''2024-01-02'' = Some (2024, 1, 2)"
    by (simp_all add: strptime_ex_def)
  have f: "fl_cliente_id (form_ex st) = Some ''1''" "fl_jogo_id (form_ex st) = Some ''5''"
    "fl_data_retirada (form_ex st) = Some ''2024-01-02''"
    "ler_data_prevista strptime_ex (fl_data_devolucao_prevista (form_ex st)) = Some None"
    "campo_status (fl_status (form_ex st)) = st" for st
    by (simp_all add: form_ex_def ler_data_prevista_def preenchido_def campo_status_def)
  have d: "copias_disponiveis ?db 5 (jogo_ex 1) \<le> 0" "0 < copias_disponiveis ?db2 5 (jogo_ex 2)"
    by (simp_all add: copias_disponiveis_def locacoes_do_jogo_def banco_ex_def jogo_ex_def
        loc_ex_def)
  note t1 = cadastrar_locacao_disponibilidade [OF f(1) p1 c(1) f(2) p5 j(1) f(3) r f(4),
      of "''ALUGADO''" "(2024, 2, 1)" None]
  note t2 = cadastrar_locacao_disponibilidade [OF f(1) p1 c(1) f(2) p5 j(1) f(3) r f(4),
      of "''DEVOLVIDO''" "(2024, 2, 1)" None]
  note t3 = cadastrar_locacao_disponibilidade [OF f(1) p1 c(2) f(2) p5 j(2) f(3) r f(4),
      of "''ALUGADO''" "(2024, 2, 1)" None]
  have a: "r_banco (cadastrar_locacao strptime_ex ?db POST (form_ex ''ALUGADO'') (2024, 2, 1) None)
             = ?db"
    using t1 d(1) by (simp add: f(5))
  have b: "r_banco (cadastrar_locacao strptime_ex ?db POST (form_ex ''DEVOLVIDO'') (2024, 2, 1) None)
       = banco_ex 1 [loc_ex 1 5 ''ALUGADO'' None, loc_ex 2 5 ''DEVOLVIDO'' (Some (2024, 2, 1))]"
    using t2 by (simp add: f(5) banco_ex_def loc_ex_def proximo_id_def)
  have e: "r_banco (cadastrar_locacao strptime_ex ?db2 POST (form_ex ''ALUGADO'') (2024, 2, 1) None)
       = banco_ex 2 [loc_ex 1 5 ''ALUGADO'' None, loc_ex 2 5 ''ALUGADO'' None]"
    using t3 d(2) by (simp add: f(5) banco_ex_def loc_ex_def proximo_id_def)
  from d(1) a b e show ?thesis by simp
qed

subsection \<open>Editing a rental\<close>

lemma find_map_update:
  "find P xs = Some x \<Longrightarrow> P (f x) \<Longrightarrow>
   find P (map (\<lambda>y. if P y then f y else y) xs) = Some (f x)"
  by (induction xs) (auto split: if_splits)

lemma buscar_atualizar:
  assumes "buscar_locacao db lid = Some loc" and "locacao_id (f loc) = lid"
  shows "buscar_locacao (atualizar_locacao db lid f) lid = Some (f loc)"
  using find_map_update [of "\<lambda>l. locacao_id l = lid" "locacoes db" loc f] assms
  by (simp add: buscar_locacao_def atualizar_locacao_def)

text \<open>
  C7: editing an existing rental to status DEVOLVIDO sets its actual return date to the
  date supplied, or to today when none is supplied; editing it to any other status sets
  its actual return date to none.
\<close>

theorem editar_locacao_data_real:
  assumes achou: "buscar_locacao db lid = Some loc"
  shows "(campo_status campo_st = ''DEVOLVIDO'' \<and> campo_real = Some t \<and> t \<noteq> []
            \<and> strptime t = Some d \<longrightarrow>
          buscar_locacao (r_banco (editar_locacao strptime db lid POST campo_st campo_real hoje None)) lid
            = Some (loc\<lparr>status := ''DEVOLVIDO'', data_devolucao_real := Some d\<rparr>))
       \<and> (campo_status campo_st = ''DEVOLVIDO'' \<and> \<not> preenchido campo_real \<longrightarrow>
          buscar_locacao (r_banco (editar_locacao strptime db lid POST campo_st campo_real hoje None)) lid
            = Some (loc\<lparr>status := ''DEVOLVIDO'', data_devolucao_real := Some hoje\<rparr>))
       \<and> (campo_status campo_st \<noteq> ''DEVOLVIDO'' \<longrightarrow>
          buscar_locacao (r_banco (editar_locacao strptime db lid POST campo_st campo_real hoje None)) lid
            = Some (loc\<lparr>status := campo_status campo_st, data_devolucao_real := None\<rparr>))"
proof -
  have u: "buscar_locacao (atualizar_locacao db lid (\<lambda>l. l\<lparr>status := s, data_devolucao_real := r\<rparr>)) lid
             = Some (loc\<lparr>status := s, data_devolucao_real := r\<rparr>)" for s r
  proof (rule buscar_atualizar [OF achou])
    have "locacao_id loc = lid"
      using achou by (auto simp: buscar_locacao_def find_Some_iff)
    then show "locacao_id (loc\<lparr>status := s, data_devolucao_real := r\<rparr>) = lid" by simp
  qed
  show ?thesis
    using achou by (auto simp: editar_locacao_def Let_def preenchido_def u)
qed

theorem editar_locacao_data_real_witness:
  "buscar_locacao (banco_ex 1 [loc_ex 1 5 ''ALUGADO'' None]) 1 = Some (loc_ex 1 5 ''ALUGADO'' None)
   \<and> buscar_locacao (r_banco (editar_locacao strptime_ex (banco_ex 1 [loc_ex 1 5 ''ALUGADO'' None])
        1 POST (Some ''DEVOLVIDO'') (Some ''2024-01-09'') (2024, 2, 1) None)) 1
       = Some (loc_ex 1 5 ''DEVOLVIDO'' (Some (2024, 1, 9)))
   \<and> buscar_locacao (r_banco (editar_locacao strptime_ex (banco_ex 1 [loc_ex 1 5 ''ALUGADO'' None])
        1 POST (Some ''DEVOLVIDO'') None (2024, 2, 1) None)) 1
       = Some (loc_ex 1 5 ''DEVOLVIDO'' (Some (2024, 2, 1)))
   \<and> buscar_locacao (r_banco (editar_locacao strptime_ex (banco_ex 1 [loc_ex 1 5 ''ALUGADO'' None])
        1 POST (Some ''ALUGADO'') (Some ''2024-01-09'') (2024, 2, 1) None)) 1
       = Some (loc_ex 1 5 ''ALUGADO'' None)"
proof -
  let ?db = "banco_ex 1 [loc_ex 1 5 ''ALUGADO'' None]"
  have a: "buscar_locacao ?db 1 = Some (loc_ex 1 5 ''ALUGADO'' None)"
    by (simp add: buscar_locacao_def banco_ex_def loc_ex_def)
  have s: "strptime_ex ''2024-01-09'' = Some (2024, 1, 9)" by (simp add: strptime_ex_def)
  from editar_locacao_data_real [OF a, of "Some ''DEVOLVIDO''" "Some ''2024-01-09''"
         "''2024-01-09''" strptime_ex "(2024, 1, 9)" "(2024, 2, 1)"] s
  have b: "buscar_locacao (r_banco (editar_locacao strptime_ex ?db
        1 POST (Some ''DEVOLVIDO'') (Some ''2024-01-09'') (2024, 2, 1) None)) 1
       = Some (loc_ex 1 5 ''DEVOLVIDO'' (Some (2024, 1, 9)))"
    by (simp add: campo_status_def loc_ex_def)
  from editar_locacao_data_real [OF a, of "Some ''DEVOLVIDO''" None _ strptime_ex _ "(2024, 2, 1)"]
  have c: "buscar_locacao (r_banco (editar_locacao strptime_ex ?db
        1 POST (Some ''DEVOLVIDO'') None (2024, 2, 1) None)) 1
       = Some (loc_ex 1 5 ''DEVOLVIDO'' (Some (2024, 2, 1)))"
    by (simp add: campo_status_def preenchido_def loc_ex_def)
  from editar_locacao_data_real [OF a, of "Some ''ALUGADO''" "Some ''2024-01-09''" _ strptime_ex
         _ "(2024, 2, 1)"]
  have d: "buscar_locacao (r_banco (editar_locacao strptime_ex ?db
        1 POST (Some ''ALUGADO'') (Some ''2024-01-09'') (2024, 2, 1) None)) 1
       = Some (loc_ex 1 5 ''ALUGADO'' None)"
    by (simp add: campo_status_def loc_ex_def)
  from a b c d show ?thesis by simp
qed

section \<open>Matriculation numbers\<close>

text \<open>
  C8: when the most recent student of the course has a matriculation that starts with the
  course code and whose suffix is not a number (\<open>int\<close> raises ValueError on it), the
  suffix counts as zero, no error is reported, and the matriculation generated is the
  course code followed by 1.
\<close>

theorem gerar_matricula_sufixo_invalido:
  assumes "ultimo_por_id (alunos_do_curso db c) = Some u"
      and "startswith (matricula u) c"
      and "py_int (drop (length c) (matricula u)) = None"
  shows "gerar_matricula db c = c @ ''1''"
  using assms by (simp add: gerar_matricula_def py_str_um)

theorem gerar_matricula_sufixo_invalido_witness:
  "ultimo_por_id (alunos_do_curso [aluno_ex 1 ''GEC'' ''GECabc''] ''GEC'')
      = Some (aluno_ex 1 ''GEC'' ''GECabc'')
   \<and> startswith ''GECabc'' ''GEC''
   \<and> py_int ''abc'' = None
   \<and> gerar_matricula [aluno_ex 1 ''GEC'' ''GECabc''] ''GEC'' = ''GEC1''
   \<and> py_int [CHR 0x1C, CHR ''5''] = None
   \<and> gerar_matricula [aluno_ex 1 ''GEC'' (''GEC'' @ [CHR 0x1C, CHR ''5''])] ''GEC'' = ''GEC1''"
proof -
  have a: "ultimo_por_id (alunos_do_curso [aluno_ex 1 ''GEC'' m] ''GEC'')
      = Some (aluno_ex 1 ''GEC'' m)" for m
    by (simp add: alunos_do_curso_def aluno_ex_def)
  have b: "startswith (matricula (aluno_ex 1 ''GEC'' (''GEC'' @ r))) ''GEC''" for r
    by (simp add: startswith_def aluno_ex_def)
  have d: "drop (length ''GEC'') (matricula (aluno_ex 1 ''GEC'' (''GEC'' @ r))) = r" for r
    by (simp add: aluno_ex_def)
  have c1: "py_int ''abc'' = None" by (simp add: py_int_eval)
  have c2: "py_int [CHR 0x1C, CHR ''5''] = None" by (simp add: py_int_eval)
  have g1: "gerar_matricula [aluno_ex 1 ''GEC'' (''GEC'' @ ''abc'')] ''GEC'' = ''GEC'' @ ''1''"
    by (rule gerar_matricula_sufixo_invalido [OF a b]) (simp only: d c1)
  have g2: "gerar_matricula [aluno_ex 1 ''GEC'' (''GEC'' @ [CHR 0x1C, CHR ''5''])] ''GEC''
              = ''GEC'' @ ''1''"
    by (rule gerar_matricula_sufixo_invalido [OF a b]) (simp only: d c2)
  from a [of "''GECabc''"] c1 c2 g1 g2 show ?thesis
    by (simp add: startswith_def)
qed

subsection \<open>Sequential registrations\<close>

lemma proximo_id_maior: "x \<in> set ids \<Longrightarrow> x < proximo_id ids"
  by (induction ids) (auto simp: proximo_id_def)

lemma ultimo_por_id_snoc:
  "\<forall>x\<in>set xs. aluno_id x < aluno_id a \<Longrightarrow> ultimo_por_id (xs @ [a]) = Some a"
  by (induction xs) auto

lemma gerar_matricula_sequencial:
  assumes "sequencial db c"
  shows "gerar_matricula db c = c @ py_str (int (Suc (length (alunos_do_curso db c))))"
proof (cases "alunos_do_curso db c = []")
  case True
  then show ?thesis by (simp add: gerar_matricula_def py_str_um)
next
  case False
  let ?cs = "alunos_do_curso db c"
  let ?n = "length ?cs"
  have u: "ultimo_por_id ?cs = Some (last ?cs)"
    using assms False by (simp add: sequencial_def Let_def)
  have "matricula (last ?cs) = last (map matricula ?cs)"
    using False by (simp add: last_map)
  also have "\<dots> = last (map (\<lambda>k. c @ py_str (int k)) [1..<Suc ?n])"
    using assms by (simp add: sequencial_def Let_def)
  also have "\<dots> = c @ py_str (int ?n)"
  proof -
    have "Suc 0 \<le> ?n" using False by (cases ?cs) simp_all
    then have "[1..<Suc ?n] = [1..<?n] @ [?n]" by simp
    then show ?thesis by simp
  qed
  finally have m: "matricula (last ?cs) = c @ py_str (int ?n)" .
  have g: "gerar_matricula db c = c @ py_str (int ?n + 1)"
    using u m by (simp add: gerar_matricula_def startswith_def py_int_py_str)
  have "int ?n + 1 = int (Suc ?n)" by simp
  with g show ?thesis by (simp only:)
qed

lemma novo_aluno_casos:
  "rf_alunos (novo_aluno db form) = db
   \<or> rf_alunos (novo_aluno db form) =
       db @ [\<lparr>aluno_id = proximo_id (map aluno_id db), aluno_nome = fa_nome form,
               email = fa_email form, curso = fa_curso form,
               matricula = gerar_matricula db (fa_curso form)\<rparr>]"
  by (simp add: novo_aluno_def commit_aluno_def Let_def split: option.splits)

lemma novo_aluno_sequencial:
  assumes s: "sequencial db c"
  shows "sequencial (rf_alunos (novo_aluno db form)) c"
proof -
  let ?novo = "\<lparr>aluno_id = proximo_id (map aluno_id db), aluno_nome = fa_nome form,
               email = fa_email form, curso = fa_curso form,
               matricula = gerar_matricula db (fa_curso form)\<rparr>"
  consider "rf_alunos (novo_aluno db form) = db"
    | "rf_alunos (novo_aluno db form) = db @ [?novo]"
    using novo_aluno_casos [of db form] by blast
  then show ?thesis
  proof cases
    case 1
    then show ?thesis using s by simp
  next
    case 2
    show ?thesis
    proof (cases "fa_curso form = c")
      case False
      then have "alunos_do_curso (db @ [?novo]) c = alunos_do_curso db c"
        by (simp add: alunos_do_curso_def)
      then show ?thesis using s 2 by (simp add: sequencial_def)
    next
      case True
      let ?cs = "alunos_do_curso db c"
      have cs': "alunos_do_curso (db @ [?novo]) c = ?cs @ [?novo]"
        using True by (simp add: alunos_do_curso_def)
      have m: "matricula ?novo = c @ py_str (int (Suc (length ?cs)))"
        using gerar_matricula_sequencial [OF s] True by simp
      have ids: "\<forall>x\<in>set ?cs. aluno_id x < aluno_id ?novo"
      proof
        fix x assume "x \<in> set ?cs"
        then have "aluno_id x \<in> set (map aluno_id db)" by (auto simp: alunos_do_curso_def)
        then show "aluno_id x < aluno_id ?novo" using proximo_id_maior by simp
      qed
      have u: "ultimo_por_id (?cs @ [?novo]) = Some ?novo"
        by (rule ultimo_por_id_snoc [OF ids])
      have "map matricula ?cs = map (\<lambda>k. c @ py_str (int k)) [1..<Suc (length ?cs)]"
        using s by (simp add: sequencial_def Let_def)
      then have "map matricula (?cs @ [?novo])
          = map (\<lambda>k. c @ py_str (int k)) [1..<Suc (length (?cs @ [?novo]))]"
        using m by (simp del: of_nat_Suc)
      then show ?thesis
        using u 2 cs' by (simp add: sequencial_def Let_def del: of_nat_Suc upt_Suc)
    qed
  qed
qed

lemma registrar_todos_sequencial:
  "sequencial db c \<Longrightarrow> sequencial (registrar_todos db forms) c"
  by (induction forms arbitrary: db) (simp_all add: novo_aluno_sequencial)

lemma matriculas_distintas: "distinct (map (\<lambda>k. c @ py_str (int k)) [1..<n])"
proof -
  have "inj_on (\<lambda>k. c @ py_str (int k)) (set [1..<n])"
    by (rule inj_onI) (auto dest: py_str_inj)
  then show ?thesis by (simp add: distinct_map)
qed

lemma novo_aluno_inserido:
  assumes "rf_alunos (novo_aluno db form) = db @ [a]"
  shows "a = \<lparr>aluno_id = proximo_id (map aluno_id db), aluno_nome = fa_nome form,
               email = fa_email form, curso = fa_curso form,
               matricula = gerar_matricula db (fa_curso form)\<rparr>"
  using novo_aluno_casos [of db form] assms by auto

lemma gerar_matricula_seguinte:
  assumes ins: "rf_alunos (novo_aluno db form) = db @ [a]" and cur: "fa_curso form = c"
  shows "\<exists>n. matricula a = c @ py_str n \<and> gerar_matricula (db @ [a]) c = c @ py_str (n + 1)"
proof -
  note a = novo_aluno_inserido [OF ins]
  obtain n where n: "gerar_matricula db c = c @ py_str n"
    by (simp add: gerar_matricula_def Let_def)
  have m: "matricula a = c @ py_str n" using a cur n by simp
  have ca: "curso a = c" using a cur by simp
  let ?cs = "alunos_do_curso db c"
  have cs': "alunos_do_curso (db @ [a]) c = ?cs @ [a]"
    using ca by (simp add: alunos_do_curso_def)
  have ids: "\<forall>x\<in>set ?cs. aluno_id x < aluno_id a"
  proof
    fix x assume "x \<in> set ?cs"
    then have "aluno_id x \<in> set (map aluno_id db)" by (auto simp: alunos_do_curso_def)
    then have "aluno_id x < proximo_id (map aluno_id db)" by (rule proximo_id_maior)
    then show "aluno_id x < aluno_id a" using a by simp
  qed
  have u: "ultimo_por_id (alunos_do_curso (db @ [a]) c) = Some a"
    unfolding cs' by (rule ultimo_por_id_snoc [OF ids])
  have "gerar_matricula (db @ [a]) c = c @ py_str (n + 1)"
    using u m by (simp add: gerar_matricula_def startswith_def py_int_py_str)
  with m show ?thesis by blast
qed

text \<open>
  C4: when a course has no student, the matriculation generated for it is the course code
  followed by 1; registrations made one after the other from there give the students of
  the course, in the order they were registered, the numbers 1, 2, 3, ... with no gap and
  no repetition. And from any table, the matriculation generated right after a
  registration in a course is that registration's number plus one.
\<close>

theorem matriculas_sequenciais:
  "(alunos_do_curso db c = [] \<longrightarrow>
        gerar_matricula db c = c @ ''1''
      \<and> map matricula (alunos_do_curso (registrar_todos db forms) c)
          = map (\<lambda>k. c @ py_str (int k))
                [1..<Suc (length (alunos_do_curso (registrar_todos db forms) c))]
      \<and> distinct (map matricula (alunos_do_curso (registrar_todos db forms) c)))
   \<and> (\<forall>a. rf_alunos (novo_aluno db form) = db @ [a] \<and> fa_curso form = c \<longrightarrow>
          (\<exists>n. matricula a = c @ py_str n
             \<and> gerar_matricula (db @ [a]) c = c @ py_str (n + 1)))"
proof -
  have primeiro: "gerar_matricula db c = c @ ''1''
      \<and> map matricula (alunos_do_curso (registrar_todos db forms) c)
          = map (\<lambda>k. c @ py_str (int k))
                [1..<Suc (length (alunos_do_curso (registrar_todos db forms) c))]
      \<and> distinct (map matricula (alunos_do_curso (registrar_todos db forms) c))"
    if vazio: "alunos_do_curso db c = []"
  proof -
    have s0: "sequencial db c" using vazio by (simp add: sequencial_def)
    have g: "gerar_matricula db c = c @ ''1''"
      using vazio by (simp add: gerar_matricula_def py_str_um)
    have s: "sequencial (registrar_todos db forms) c"
      by (rule registrar_todos_sequencial [OF s0])
    then have m: "map matricula (alunos_do_curso (registrar_todos db forms) c)
           = map (\<lambda>k. c @ py_str (int k))
                 [1..<Suc (length (alunos_do_curso (registrar_todos db forms) c))]"
      by (simp add: sequencial_def Let_def)
    have d: "distinct (map matricula (alunos_do_curso (registrar_todos db forms) c))"
      by (subst m) (rule matriculas_distintas)
    from g m d show ?thesis by blast
  qed
  have seguinte: "\<exists>n. matricula a = c @ py_str n
             \<and> gerar_matricula (db @ [a]) c = c @ py_str (n + 1)"
    if "rf_alunos (novo_aluno db form) = db @ [a] \<and> fa_curso form = c" for a
    using that gerar_matricula_seguinte [of db form a c] by blast
  from primeiro seguinte show ?thesis by blast
qed

theorem matriculas_sequenciais_witness:
  "alunos_do_curso [aluno_ex 1 ''GEA'' ''GEA1''] ''GEC'' = []
   \<and> gerar_matricula [aluno_ex 1 ''GEA'' ''GEA1''] ''GEC'' = ''GEC1''
   \<and> map matricula (alunos_do_curso
        (registrar_todos [aluno_ex 1 ''GEA'' ''GEA1'']
           [form_aluno_ex ''b@x'' ''GEC'', form_aluno_ex ''c@x'' ''GEA'',
            form_aluno_ex ''d@x'' ''GEC'']) ''GEC'')
       = [''GEC1'', ''GEC2'']
   \<and> rf_alunos (novo_aluno [aluno_ex 1 ''GEA'' ''GEA1''] (form_aluno_ex ''b@x'' ''GEC''))
       = [aluno_ex 1 ''GEA'' ''GEA1''] @ [aluno_ex 2 ''GEC'' ''GEC1''\<lparr>aluno_nome := ''Bia'', email := ''b@x''\<rparr>]
   \<and> gerar_matricula ([aluno_ex 1 ''GEA'' ''GEA1'']
          @ [aluno_ex 2 ''GEC'' ''GEC1''\<lparr>aluno_nome := ''Bia'', email := ''b@x''\<rparr>]) ''GEC''
       = ''GEC2''"
proof -
  let ?db = "[aluno_ex 1 ''GEA'' ''GEA1'']"
  let ?fs = "[form_aluno_ex ''b@x'' ''GEC'', form_aluno_ex ''c@x'' ''GEA'',
            form_aluno_ex ''d@x'' ''GEC'']"
  let ?a = "aluno_ex 2 ''GEC'' ''GEC1''\<lparr>aluno_nome := ''Bia'', email := ''b@x''\<rparr>"
  have v: "alunos_do_curso ?db ''GEC'' = []" by (simp add: alunos_do_curso_def aluno_ex_def)
  have n: "length (alunos_do_curso (registrar_todos ?db ?fs) ''GEC'') = 2"
    by (simp add: novo_aluno_def commit_aluno_def gerar_matricula_def alunos_do_curso_def
        CURSOS_VALIDOS_def startswith_def py_int_eval py_str_um py_str_dois proximo_id_def
        aluno_ex_def form_aluno_ex_def)
  note t = matriculas_sequenciais [of ?db "''GEC''" ?fs "form_aluno_ex ''b@x'' ''GEC''"]
  note t1 = t [THEN conjunct1, rule_format, OF v]
  have g: "gerar_matricula ?db ''GEC'' = ''GEC1''"
    using t1 [THEN conjunct1] by simp
  have l: "map (\<lambda>k. ''GEC'' @ py_str (int k)) [1..<Suc 2] = [''GEC1'', ''GEC2'']"
    by (simp add: upt_rec py_str_um py_str_dois)
  have e: "map matricula (alunos_do_curso (registrar_todos ?db ?fs) ''GEC'')
             = [''GEC1'', ''GEC2'']"
    using t1 [THEN conjunct2, THEN conjunct1, unfolded n] l by (simp only:)
  have r: "rf_alunos (novo_aluno ?db (form_aluno_ex ''b@x'' ''GEC'')) = ?db @ [?a]"
    by (simp add: novo_aluno_def commit_aluno_def gerar_matricula_def alunos_do_curso_def
        CURSOS_VALIDOS_def py_str_um proximo_id_def aluno_ex_def form_aluno_ex_def Let_def)
  have fc: "fa_curso (form_aluno_ex ''b@x'' ''GEC'') = ''GEC''" by (simp add: form_aluno_ex_def)
  from t [THEN conjunct2, rule_format, of ?a] r fc
  obtain k where k: "matricula ?a = ''GEC'' @ py_str k"
      "gerar_matricula (?db @ [?a]) ''GEC'' = ''GEC'' @ py_str (k + 1)" by blast
  from k(1) have "py_str k = py_str 1" by (simp add: aluno_ex_def py_str_um)
  then have "k = 1" by (rule py_str_inj)
  with k(2) have p: "gerar_matricula (?db @ [?a]) ''GEC'' = ''GEC2''"
    by (simp add: py_str_dois)
  show ?thesis by (rule conjI [OF v conjI [OF g conjI [OF e conjI [OF r p]]]])
qed

end
